theory Spec2Isabelle
  imports Main "HOL-Library.Sublist"
begin

section \<open>The service worker of raj-app\<close>

text \<open>
  The repository holds one source file, \<^verbatim>\<open>sw.js\<close>, in two variants: the enhanced worker
  (\<^verbatim>\<open>CACHE_NAME = 'raj-app-v2'\<close>, lines 1--244) and the earlier basic worker
  (\<^verbatim>\<open>CACHE_NAME = 'raj-app-v1'\<close>, lines 245--339). Both are embedded; constants that the two
  variants declare under the same name carry the suffix \<open>_v1\<close> or \<open>_v2\<close>.

  The worker is event-driven code over three browser interfaces: the cache storage
  (\<^verbatim>\<open>caches\<close>), the network (\<^verbatim>\<open>fetch\<close>) and the console. The embedding makes them explicit:
  the cache storage, a trace of every interface call and the read state of every response
  body form the state that each handler takes and returns, the network is a function given
  to the handler, and a promise is a computation over that state that settles as fulfilled
  or rejected.
\<close>

subsection \<open>Strings\<close>

text \<open>\<^verbatim>\<open>s.includes(sub)\<close>: \<open>sub\<close> occurs in \<open>s\<close> at some position.\<close>

fun str_includes :: "string \<Rightarrow> string \<Rightarrow> bool" where
  "str_includes [] sub = (sub = [])"
| "str_includes (c # s) sub = (prefix sub (c # s) \<or> str_includes s sub)"

text \<open>\<^verbatim>\<open>s.startsWith(p)\<close>.\<close>

definition startsWith :: "string \<Rightarrow> string \<Rightarrow> bool" where
  "startsWith s p = prefix p s"

subsection \<open>Requests and responses\<close>

text \<open>\<^verbatim>\<open>Response.type\<close> as the Fetch standard enumerates it.\<close>

datatype response_type = Basic | Cors | Default | Error | Opaque | OpaqueRedirect

text \<open>What a response says: this is what a cache keeps of it.\<close>

record response =
  status :: nat
  statusText :: string
  rtype :: response_type
  body :: string

text \<open>
  \<^verbatim>\<open>new Response(body, {status, statusText})\<close>: a response built by script has type
  \<^verbatim>\<open>default\<close>.
\<close>

definition new_Response :: "string \<Rightarrow> nat \<Rightarrow> string \<Rightarrow> response" where
  "new_Response b st txt = \<lparr>status = st, statusText = txt, rtype = Default, body = b\<rparr>"

text \<open>
  A \<^verbatim>\<open>Response\<close> object in the worker: what it says, and the identity of its body
  stream. The stream can be read once; the state records which streams have been read.
\<close>

record response_object =
  content :: response
  oid :: nat

datatype request_mode = Navigate | SameOrigin | NoCors | CorsMode

text \<open>
  A request is kept in the parts \<^verbatim>\<open>new URL(event.request.url)\<close> splits its URL into, with
  \<^verbatim>\<open>event.request.method\<close> (\<open>request_method\<close>) and \<^verbatim>\<open>event.request.mode\<close>. \<open>port\<close> is
  empty for the default port of the scheme; \<open>search\<close> and \<open>hash\<close> are empty or start
  with \<^verbatim>\<open>?\<close> and \<^verbatim>\<open>#\<close>.
\<close>

record request =
  request_method :: string
  scheme :: string
  hostname :: string
  port :: string
  pathname :: string
  search :: string
  hash :: string
  mode :: request_mode

text \<open>
  The URL without its fragment: what is sent to the network, and what the cache compares.
\<close>

definition url_key :: "request \<Rightarrow> string" where
  "url_key r =
     scheme r @ ''://'' @ hostname r @ (if port r = [] then [] else '':'' @ port r) @
     pathname r @ search r"

text \<open>\<^verbatim>\<open>event.request.url\<close>: the serialised URL, fragment included.\<close>

definition url :: "request \<Rightarrow> string" where
  "url r = url_key r @ hash r"

subsection \<open>Cache storage\<close>

text \<open>
  A cache maps request URLs (without fragment) to responses; the cache storage maps names
  to caches. Both are kept as association lists in insertion order, the order in which
  \<^verbatim>\<open>caches.keys()\<close> enumerates and \<^verbatim>\<open>caches.match\<close> searches. Only \<^verbatim>\<open>GET\<close> requests are
  ever stored, so the URL is the whole key. Headers are not part of the model: no response
  carries a \<^verbatim>\<open>Vary\<close> header.
\<close>

type_synonym cache = "(string \<times> response) list"
type_synonym cache_storage = "(string \<times> cache) list"

definition cache_match :: "cache \<Rightarrow> string \<Rightarrow> response option" where
  "cache_match c k = map_of c k"

text \<open>\<^verbatim>\<open>cache.put\<close> replaces whatever the cache holds for the key.\<close>

definition cache_put :: "cache \<Rightarrow> string \<Rightarrow> response \<Rightarrow> cache" where
  "cache_put c k v = filter (\<lambda>e. fst e \<noteq> k) c @ [(k, v)]"

text \<open>
  \<^verbatim>\<open>caches.match(url)\<close> with a URL string, which stands for a \<^verbatim>\<open>GET\<close> request: the first
  hit over all caches, in creation order.
\<close>

fun caches_match :: "cache_storage \<Rightarrow> string \<Rightarrow> response option" where
  "caches_match [] k = None"
| "caches_match ((n, c) # s) k =
     (case cache_match c k of Some v \<Rightarrow> Some v | None \<Rightarrow> caches_match s k)"

text \<open>
  \<^verbatim>\<open>caches.match(request)\<close> with a request: a request whose method is not \<^verbatim>\<open>GET\<close>
  matches nothing.
\<close>

definition caches_match_request :: "cache_storage \<Rightarrow> request \<Rightarrow> response option" where
  "caches_match_request s r =
     (if request_method r = ''GET'' then caches_match s (url_key r) else None)"

text \<open>
  \<^verbatim>\<open>cache.put(request, response)\<close> refuses, with a \<^verbatim>\<open>TypeError\<close>, a request that is not a
  \<^verbatim>\<open>GET\<close> over \<^verbatim>\<open>http\<close> or \<^verbatim>\<open>https\<close>.
\<close>

definition put_accepts :: "request \<Rightarrow> bool" where
  "put_accepts r =
     ((scheme r = ''http'' \<or> scheme r = ''https'') \<and> request_method r = ''GET'')"

text \<open>\<^verbatim>\<open>caches.open(name)\<close> creates the cache when it is absent.\<close>

definition caches_open :: "cache_storage \<Rightarrow> string \<Rightarrow> cache_storage" where
  "caches_open s n = (if n \<in> set (map fst s) then s else s @ [(n, [])])"

definition caches_keys :: "cache_storage \<Rightarrow> string list" where
  "caches_keys s = map fst s"

definition caches_delete :: "cache_storage \<Rightarrow> string \<Rightarrow> cache_storage" where
  "caches_delete s n = filter (\<lambda>e. fst e \<noteq> n) s"

text \<open>A put through the handle of the cache named \<open>n\<close>.\<close>

fun storage_put :: "cache_storage \<Rightarrow> string \<Rightarrow> string \<Rightarrow> response \<Rightarrow> cache_storage" where
  "storage_put [] n k v = []"
| "storage_put ((n', c) # s) n k v =
     (if n' = n then (n', cache_put c k v) # s else (n', c) # storage_put s n k v)"

text \<open>The entries of all caches, and the number of them stored under a key.\<close>

definition all_entries :: "cache_storage \<Rightarrow> (string \<times> response) list" where
  "all_entries s = concat (map snd s)"

definition entries_for :: "cache_storage \<Rightarrow> string \<Rightarrow> nat" where
  "entries_for s k = length (filter (\<lambda>e. fst e = k) (all_entries s))"

subsection \<open>State, environment and promises\<close>

datatype level = Log | Warn | Err

datatype event =
    Console level "string list"
  | CacheMatch string
  | CacheOpen string
  | CachePut string string
  | CacheKeys
  | CacheDelete string
  | NetFetch string
  | SkipWaiting
  | ClientsClaim

text \<open>
  The state: the cache storage, the trace of interface calls, and for every response
  object created so far whether its body has been read (\<open>bodies ! oid\<close>).
\<close>

record world =
  caches :: cache_storage
  trace :: "event list"
  bodies :: "bool list"

text \<open>
  The environment of one handler run: the origin the worker is served from, against which
  the platform resolves the path-absolute URLs of the source, and the network, which
  answers a method and a URL with a response or fails. A service worker is only ever
  served from an \<^verbatim>\<open>http\<close> or \<^verbatim>\<open>https\<close> origin.
\<close>

record env =
  origin :: string
  net :: "string \<Rightarrow> string \<Rightarrow> response option"

text \<open>
  A path-absolute URL string (\<^verbatim>\<open>'/raj-app/'\<close>) is resolved against the worker's origin;
  the other URL strings of the source are absolute already.
\<close>

definition resolve_url :: "env \<Rightarrow> string \<Rightarrow> string" where
  "resolve_url e u = (if take 1 u = ''/'' then origin e @ u else u)"

text \<open>
  A promise, run to settlement: \<open>Inl\<close> the reason of a rejection, \<open>Inr\<close> the value of a
  fulfilment, with the state its work leaves.
\<close>

type_synonym 'a promise = "world \<Rightarrow> (string + 'a) \<times> world"

definition resolve_p :: "'a \<Rightarrow> 'a promise" where
  "resolve_p x = (\<lambda>w. (Inr x, w))"

text \<open>
  \<^verbatim>\<open>p.then(f)\<close>: a rejection of \<open>p\<close> skips \<open>f\<close>. The same sequencing serves for a call
  inside a callback that may throw, since a throw rejects the callback's promise.
\<close>

definition then_p :: "'a promise \<Rightarrow> ('a \<Rightarrow> 'b promise) \<Rightarrow> 'b promise" where
  "then_p p f = (\<lambda>w. case p w of (Inl err, w') \<Rightarrow> (Inl err, w') | (Inr x, w') \<Rightarrow> f x w')"

text \<open>\<^verbatim>\<open>p.catch(h)\<close>: a rejection of \<open>p\<close> is handed to \<open>h\<close>, whose result settles the promise.\<close>

definition catch_p :: "'a promise \<Rightarrow> (string \<Rightarrow> 'a promise) \<Rightarrow> 'a promise" where
  "catch_p p h = (\<lambda>w. case p w of (Inl err, w') \<Rightarrow> h err w' | (Inr x, w') \<Rightarrow> (Inr x, w'))"

text \<open>
  A promise that the code starts and does not return from its callback: its work is done,
  its outcome, a rejection included, reaches nobody. The work is run where it is started;
  in the source it never shares a response object with the work that follows, so the
  order of the two does not show in the result.
\<close>

definition detached :: "'a promise \<Rightarrow> 'b promise \<Rightarrow> 'b promise" where
  "detached p k = (\<lambda>w. k (snd (p w)))"

text \<open>A synchronous interface call made before the rest of a callback body.\<close>

definition emit :: "event \<Rightarrow> 'a promise \<Rightarrow> 'a promise" where
  "emit ev k = (\<lambda>w. k (w\<lparr>trace := trace w @ [ev]\<rparr>))"

fun promise_all :: "'a promise list \<Rightarrow> 'a list promise" where
  "promise_all [] = resolve_p []"
| "promise_all (p # ps) = then_p p (\<lambda>x. then_p (promise_all ps) (\<lambda>xs. resolve_p (x # xs)))"

subsection \<open>Response objects\<close>

text \<open>A new response object: its body has not been read.\<close>

definition alloc :: "response \<Rightarrow> response_object promise" where
  "alloc c = (\<lambda>w. (Inr \<lparr>content = c, oid = length (bodies w)\<rparr>, w\<lparr>bodies := bodies w @ [False]\<rparr>))"

text \<open>\<^verbatim>\<open>response.bodyUsed\<close>.\<close>

definition bodyUsed :: "world \<Rightarrow> response_object \<Rightarrow> bool" where
  "bodyUsed w ob = (if oid ob < length (bodies w) then bodies w ! oid ob else True)"

text \<open>Reading the body of a response object to its end.\<close>

definition read_body :: "response_object \<Rightarrow> world \<Rightarrow> world" where
  "read_body ob w = w\<lparr>bodies := (bodies w)[oid ob := True]\<rparr>"

text \<open>
  \<^verbatim>\<open>response.clone()\<close>: a second object with the same content and a body of its own. It
  throws when the body of the original has been read.
\<close>

definition clone :: "response_object \<Rightarrow> response_object promise" where
  "clone ob =
     (\<lambda>w. if bodyUsed w ob then (Inl ''TypeError: Response body is already used'', w)
          else alloc (content ob) w)"

subsection \<open>The platform calls as promises\<close>

text \<open>A lookup that hits fulfils with a new response object.\<close>

definition found :: "response option \<Rightarrow> response_object option promise" where
  "found hit =
     (case hit of
        None \<Rightarrow> resolve_p None
      | Some c \<Rightarrow> then_p (alloc c) (\<lambda>ob. resolve_p (Some ob)))"

text \<open>\<^verbatim>\<open>caches.match(url)\<close> with a URL string.\<close>

definition caches_match_p :: "string \<Rightarrow> response_object option promise" where
  "caches_match_p k = emit (CacheMatch k) (\<lambda>w. found (caches_match (caches w) k) w)"

text \<open>\<^verbatim>\<open>caches.match(request)\<close> with a request.\<close>

definition caches_match_request_p :: "request \<Rightarrow> response_object option promise" where
  "caches_match_request_p r =
     emit (CacheMatch (url r)) (\<lambda>w. found (caches_match_request (caches w) r) w)"

definition caches_open_p :: "string \<Rightarrow> string promise" where
  "caches_open_p n =
     (\<lambda>w. (Inr n, w\<lparr>caches := caches_open (caches w) n, trace := trace w @ [CacheOpen n]\<rparr>))"

text \<open>
  \<^verbatim>\<open>cache.put(request, response)\<close>, on the cache named \<open>n\<close>. It rejects a request it does
  not accept, a partial response (status 206) and a response whose body has been read;
  otherwise it reads the body and stores the response under the URL of the request.
\<close>

definition cache_put_p :: "string \<Rightarrow> request \<Rightarrow> response_object \<Rightarrow> unit promise" where
  "cache_put_p n r ob =
     emit (CachePut n (url r))
       (\<lambda>w. if \<not> put_accepts r then (Inl ''TypeError: Request is not supported'', w)
            else if status (content ob) = 206 then (Inl ''TypeError: Partial response'', w)
            else if bodyUsed w ob then (Inl ''TypeError: Response body is already used'', w)
            else (Inr (),
                  read_body ob (w\<lparr>caches := storage_put (caches w) n (url_key r) (content ob)\<rparr>)))"

definition caches_keys_p :: "string list promise" where
  "caches_keys_p = (\<lambda>w. (Inr (caches_keys (caches w)), w\<lparr>trace := trace w @ [CacheKeys]\<rparr>))"

text \<open>\<^verbatim>\<open>caches.delete(name)\<close> fulfils with whether the cache existed.\<close>

definition caches_delete_p :: "string \<Rightarrow> bool option promise" where
  "caches_delete_p n =
     (\<lambda>w. (Inr (Some (n \<in> set (caches_keys (caches w)))),
           w\<lparr>caches := caches_delete (caches w) n, trace := trace w @ [CacheDelete n]\<rparr>))"

text \<open>
  \<^verbatim>\<open>fetch(request)\<close> fulfils with a new response object, or rejects with a \<^verbatim>\<open>TypeError\<close>
  when the network fails.
\<close>

definition fetch_p :: "env \<Rightarrow> request \<Rightarrow> response_object promise" where
  "fetch_p e r =
     emit (NetFetch (url r))
       (\<lambda>w. case net e (request_method r) (url_key r) of
              None \<Rightarrow> (Inl ''TypeError: Failed to fetch'', w)
            | Some resp \<Rightarrow> alloc resp w)"

definition skipWaiting_p :: "unit promise" where
  "skipWaiting_p = (\<lambda>w. (Inr (), w\<lparr>trace := trace w @ [SkipWaiting]\<rparr>))"

definition clients_claim_p :: "unit promise" where
  "clients_claim_p = (\<lambda>w. (Inr (), w\<lparr>trace := trace w @ [ClientsClaim]\<rparr>))"

text \<open>
  \<^verbatim>\<open>cache.addAll(urls)\<close> fetches every URL with a \<^verbatim>\<open>GET\<close> and stores the responses only
  when every fetch succeeded with an ok status (200 to 299); otherwise it rejects and
  stores nothing. The response objects it handles never leave the platform.
\<close>

definition response_ok :: "response \<Rightarrow> bool" where
  "response_ok r = (200 \<le> status r \<and> status r \<le> 299)"

fun fetch_all :: "(string \<Rightarrow> response option) \<Rightarrow> string list \<Rightarrow> (string \<times> response) list option" where
  "fetch_all f [] = Some []"
| "fetch_all f (u # us) =
     (case f u of
        None \<Rightarrow> None
      | Some resp \<Rightarrow>
          if response_ok resp
          then (case fetch_all f us of None \<Rightarrow> None | Some rs \<Rightarrow> Some ((u, resp) # rs))
          else None)"

fun put_all :: "cache_storage \<Rightarrow> string \<Rightarrow> (string \<times> response) list \<Rightarrow> cache_storage" where
  "put_all s n [] = s"
| "put_all s n ((u, resp) # rs) = put_all (storage_put s n u resp) n rs"

definition cache_addAll_p :: "env \<Rightarrow> string \<Rightarrow> string list \<Rightarrow> unit promise" where
  "cache_addAll_p e n urls =
     (\<lambda>w. let us = map (resolve_url e) urls;
               w1 = w\<lparr>trace := trace w @ map NetFetch us\<rparr>
           in case fetch_all (net e ''GET'') us of
                None \<Rightarrow> (Inl ''TypeError: Request failed'', w1)
              | Some rs \<Rightarrow>
                  (Inr (), w1\<lparr>caches := put_all (caches w1) n rs,
                               trace := trace w1 @ map (\<lambda>e. CachePut n (fst e)) rs\<rparr>))"

text \<open>
  \<^verbatim>\<open>a || b\<close> yields \<open>a\<close> when \<open>a\<close> is truthy and \<open>b\<close> otherwise. The operands the source
  gives it are promise objects; an object is truthy whatever it later settles to.
\<close>

datatype 'a operand = Undefined | Object 'a

fun truthy :: "'a operand \<Rightarrow> bool" where
  "truthy Undefined = False"
| "truthy (Object x) = True"

definition logical_or :: "'a operand \<Rightarrow> 'a operand \<Rightarrow> 'a operand" where
  "logical_or a b = (if truthy a then a else b)"

text \<open>Returning an operand from a callback: a promise is adopted, \<^verbatim>\<open>undefined\<close> fulfils.\<close>

fun returned :: "'a option promise operand \<Rightarrow> 'a option promise" where
  "returned Undefined = resolve_p None"
| "returned (Object p) = p"

subsection \<open>Configuration\<close>

definition BASE_PATH :: string where
  "BASE_PATH = ''/raj-app''"

definition CACHE_NAME_v2 :: string where
  "CACHE_NAME_v2 = ''raj-app-v2''"

definition urlsToCache_v2 :: "string list" where
  "urlsToCache_v2 =
     [BASE_PATH @ ''/'',
      BASE_PATH @ ''/index.html'',
      BASE_PATH @ ''/manifest.json'',
      BASE_PATH @ ''/icons/icons-192x192.jpg'',
      BASE_PATH @ ''/icons/icons-512x512.jpg'',
      ''https://www.gstatic.com/firebasejs/9.23.0/firebase-app-compat.js'',
      ''https://www.gstatic.com/firebasejs/9.23.0/firebase-auth-compat.js'',
      ''https://www.gstatic.com/firebasejs/9.23.0/firebase-firestore-compat.js'']"

definition CACHE_NAME_v1 :: string where
  "CACHE_NAME_v1 = ''raj-app-v1''"

definition urlsToCache_v1 :: "string list" where
  "urlsToCache_v1 =
     [BASE_PATH @ ''/'',
      BASE_PATH @ ''/index.html'',
      BASE_PATH @ ''/manifest.json'',
      BASE_PATH @ ''/icons/icons-192x192.jpg'',
      BASE_PATH @ ''/icons/icons-512x512.jpg'']"

subsection \<open>Install\<close>

text \<open>
  The install listener (lines 21--37) hands \<^verbatim>\<open>event.waitUntil\<close> the promise
  \<^verbatim>\<open>caches.open(..).then(addAll).then(skipWaiting).catch(log)\<close>. The value of
  \<open>install_v2\<close> is how that promise settles: the platform fails the installation
  exactly when it is rejected.
\<close>

definition install_v2 :: "env \<Rightarrow> unit promise" where
  "install_v2 e =
     emit (Console Log [''Service Worker: Installing v2...''])
       (catch_p
          (then_p
             (then_p (caches_open_p CACHE_NAME_v2)
                (\<lambda>cache.
                   emit (Console Log [''Service Worker: Caching app shell and Firebase SDK''])
                     (cache_addAll_p e cache urlsToCache_v2)))
             (\<lambda>_. emit (Console Log [''Service Worker: Installation complete'']) skipWaiting_p))
          (\<lambda>error. emit (Console Err [''Service Worker: Cache failed'', error]) (resolve_p ())))"

text \<open>The install listener of the basic worker (lines 260--276).\<close>

definition install_v1 :: "env \<Rightarrow> unit promise" where
  "install_v1 e =
     emit (Console Log [''Service Worker: Installing...''])
       (catch_p
          (then_p
             (then_p (caches_open_p CACHE_NAME_v1)
                (\<lambda>cache.
                   emit (Console Log [''Service Worker: Caching files''])
                     (cache_addAll_p e cache urlsToCache_v1)))
             (\<lambda>_. emit (Console Log [''Service Worker: Installation complete'']) skipWaiting_p))
          (\<lambda>error. emit (Console Log [''Service Worker: Cache failed'', error]) (resolve_p ())))"

subsection \<open>Activate\<close>

text \<open>
  The enhanced worker registers two activate listeners. The first (lines 40--57) deletes
  every cache whose name is not \<^verbatim>\<open>CACHE_NAME\<close> and then claims the clients; the second
  (lines 228--242) deletes the caches named \<^verbatim>\<open>raj-app-*\<close> other than \<^verbatim>\<open>CACHE_NAME\<close>.
  Each hands the names that \<^verbatim>\<open>caches.keys()\<close> enumerates to a callback, which maps a
  name to the promise of its deletion, or to \<^verbatim>\<open>undefined\<close> (\<open>None\<close>) when it keeps the
  cache, and waits for all of them.
\<close>

text \<open>The callback of lines 43--51.\<close>

definition delete_other_caches_v2 :: "string list \<Rightarrow> bool option list promise" where
  "delete_other_caches_v2 cacheNames =
     promise_all
       (map (\<lambda>cacheName.
               if cacheName \<noteq> CACHE_NAME_v2
               then emit (Console Log [''Service Worker: Deleting old cache'', cacheName])
                      (caches_delete_p cacheName)
               else resolve_p None)
          cacheNames)"

definition activate_first_v2 :: "bool option list promise" where
  "activate_first_v2 =
     emit (Console Log [''Service Worker: Activating v2...''])
       (then_p (then_p caches_keys_p delete_other_caches_v2)
          (\<lambda>r. emit (Console Log [''Service Worker: Activation complete''])
                 (then_p clients_claim_p (\<lambda>_. resolve_p r))))"

text \<open>The callback of lines 231--239.\<close>

definition delete_old_versions_v2 :: "string list \<Rightarrow> bool option list promise" where
  "delete_old_versions_v2 cacheNames =
     promise_all
       (map (\<lambda>cacheName.
               if startsWith cacheName ''raj-app-'' \<and> cacheName \<noteq> CACHE_NAME_v2
               then emit (Console Log [''Service Worker: Removing old cache:'', cacheName])
                      (caches_delete_p cacheName)
               else resolve_p None)
          cacheNames)"

definition activate_second_v2 :: "bool option list promise" where
  "activate_second_v2 = then_p caches_keys_p delete_old_versions_v2"

text \<open>
  The activate event calls both listeners, in the order of their registration, and the
  platform is free to interleave the work of their promises. \<open>activate_v2\<close> runs the first
  listener to its end and then the second. The storage that results does not depend on
  that choice: the second callback may be given any enumeration, and the two callbacks may
  run in the other order (lemmas \<open>activate_v2_any_enumeration\<close> and
  \<open>activate_v2_commuted\<close> below).
\<close>

definition activate_v2 :: "world \<Rightarrow> world" where
  "activate_v2 w = snd (activate_second_v2 (snd (activate_first_v2 w)))"

text \<open>The activate listener of the basic worker (lines 279--296).\<close>

definition activate_v1 :: "bool option list promise" where
  "activate_v1 =
     emit (Console Log [''Service Worker: Activating...''])
       (then_p
          (then_p caches_keys_p
             (\<lambda>cacheNames.
                promise_all
                  (map (\<lambda>cacheName.
                          if cacheName \<noteq> CACHE_NAME_v1
                          then emit (Console Log [''Service Worker: Deleting old cache'', cacheName])
                                 (caches_delete_p cacheName)
                          else resolve_p None)
                     cacheNames)))
          (\<lambda>r. emit (Console Log [''Service Worker: Activation complete''])
                 (then_p clients_claim_p (\<lambda>_. resolve_p r))))"

subsection \<open>Fetch\<close>

text \<open>
  What a fetch listener does with the event: it returns without calling
  \<^verbatim>\<open>event.respondWith\<close>, and the browser handles the request as if there were no worker,
  or it answers with a promise. That promise fulfils with a response object, fulfils with
  \<^verbatim>\<open>undefined\<close> (\<open>None\<close>), or rejects; the page sees a network error in the last two cases.
  The browser reads the body of the response object it is given; an object whose body has
  been read already is a network error too. The outcome holds what the page receives.
\<close>

datatype fetch_outcome = NotIntercepted | RespondWith "string + response option"

definition respondWith :: "response_object option promise \<Rightarrow> world \<Rightarrow> fetch_outcome \<times> world" where
  "respondWith p w =
     (case p w of
        (Inl err, w') \<Rightarrow> (RespondWith (Inl err), w')
      | (Inr None, w') \<Rightarrow> (RespondWith (Inr None), w')
      | (Inr (Some ob), w') \<Rightarrow>
          if bodyUsed w' ob then (RespondWith (Inl ''TypeError: Response body is already used''), w')
          else (RespondWith (Inr (Some (content ob))), read_body ob w'))"

text \<open>The host test of lines 64--69.\<close>

definition excluded_host_v2 :: "request \<Rightarrow> bool" where
  "excluded_host_v2 r =
     (str_includes (hostname r) ''firebase.googleapis.com'' \<or>
      str_includes (hostname r) ''firestore.googleapis.com'' \<or>
      str_includes (hostname r) ''identitytoolkit.googleapis.com'' \<or>
      str_includes (hostname r) ''securetoken.googleapis.com'' \<or>
      str_includes (hostname r) ''googleapis.com'' \<or>
      str_includes (hostname r) ''gstatic.com'')"

text \<open>The test of line 72 for the Firebase SDK files.\<close>

definition sdk_asset_v2 :: "request \<Rightarrow> bool" where
  "sdk_asset_v2 r =
     (str_includes (hostname r) ''gstatic.com'' \<and> str_includes (pathname r) ''firebase'')"

text \<open>The body of the host test (lines 70--86).\<close>

definition excluded_branch_v2 :: "env \<Rightarrow> request \<Rightarrow> world \<Rightarrow> fetch_outcome \<times> world" where
  "excluded_branch_v2 e r =
     (if sdk_asset_v2 r
      then respondWith
             (then_p (caches_match_request_p r)
                (\<lambda>cachedResponse.
                   case cachedResponse of
                     Some c \<Rightarrow> resolve_p (Some c)
                   | None \<Rightarrow> then_p (fetch_p e r) (\<lambda>resp. resolve_p (Some resp))))
      else (\<lambda>w. (NotIntercepted, w)))"

text \<open>
  The cache-first promise for the requests of the application (lines 90--139).
  \<^verbatim>\<open>fetch\<close> never fulfils with a null response, so the test \<^verbatim>\<open>!response\<close> of line 104 is
  false wherever it is reached. The promise of \<^verbatim>\<open>cache.put\<close> is dropped by its callback
  (line 114), so its rejection is not seen by the \<^verbatim>\<open>catch\<close> of line 116.
\<close>

definition app_asset_v2 :: "env \<Rightarrow> request \<Rightarrow> response_object option promise" where
  "app_asset_v2 e r =
     catch_p
       (then_p (caches_match_request_p r)
          (\<lambda>response.
             case response of
               Some c \<Rightarrow>
                 emit (Console Log [''Service Worker: Serving from cache:'', url r])
                   (resolve_p (Some c))
             | None \<Rightarrow>
                 emit (Console Log [''Service Worker: Fetching from network:'', url r])
                   (then_p (fetch_p e r)
                      (\<lambda>response.
                         if status (content response) \<noteq> 200 \<or> rtype (content response) \<noteq> Basic
                         then resolve_p (Some response)
                         else then_p (clone response)
                                (\<lambda>responseToCache.
                                   detached
                                     (catch_p
                                        (then_p (caches_open_p CACHE_NAME_v2)
                                           (\<lambda>cache.
                                              detached (cache_put_p cache r responseToCache)
                                                (resolve_p ())))
                                        (\<lambda>error.
                                           emit (Console Warn
                                                   [''Service Worker: Failed to cache resource:'',
                                                    error])
                                             (resolve_p ())))
                                     (resolve_p (Some response)))))))
       (\<lambda>error.
          emit (Console Err [''Service Worker: Fetch failed for'', url r, error])
            (if mode r = Navigate
             then returned
                    (logical_or
                       (Object (caches_match_p (resolve_url e (BASE_PATH @ ''/index.html''))))
                       (Object (caches_match_p (resolve_url e (BASE_PATH @ ''/'')))))
             else then_p
                    (alloc (new_Response ''Offline - resource not available'' 503
                              ''Service Unavailable''))
                    (\<lambda>ob. resolve_p (Some ob))))"

text \<open>The fetch listener of the enhanced worker (lines 60--140).\<close>

definition fetch_v2 :: "env \<Rightarrow> request \<Rightarrow> world \<Rightarrow> fetch_outcome \<times> world" where
  "fetch_v2 e r =
     (if excluded_host_v2 r then excluded_branch_v2 e r else respondWith (app_asset_v2 e r))"

text \<open>The test of lines 301--303, on the whole URL of the request.\<close>

definition excluded_url_v1 :: "request \<Rightarrow> bool" where
  "excluded_url_v1 r =
     (str_includes (url r) ''firestore.googleapis.com'' \<or>
      str_includes (url r) ''firebase.googleapis.com'' \<or>
      str_includes (url r) ''googleapis.com'')"

text \<open>
  The cache-first promise of the basic worker (lines 307--339). Its \<^verbatim>\<open>catch\<close> sits on the
  network fetch and its handler returns nothing.
\<close>

definition app_asset_v1 :: "env \<Rightarrow> request \<Rightarrow> response_object option promise" where
  "app_asset_v1 e r =
     then_p (caches_match_request_p r)
       (\<lambda>response.
          case response of
            Some c \<Rightarrow> resolve_p (Some c)
          | None \<Rightarrow>
              catch_p
                (then_p (fetch_p e r)
                   (\<lambda>response.
                      if status (content response) \<noteq> 200 \<or> rtype (content response) \<noteq> Basic
                      then resolve_p (Some response)
                      else then_p (clone response)
                             (\<lambda>responseToCache.
                                detached
                                  (then_p (caches_open_p CACHE_NAME_v1)
                                     (\<lambda>cache.
                                        detached (cache_put_p cache r responseToCache)
                                          (resolve_p ())))
                                  (resolve_p (Some response)))))
                (\<lambda>error.
                   emit (Console Err
                           [''Service Worker: Fetch failed and no cache match for'', url r, error])
                     (resolve_p None)))"

text \<open>The fetch listener of the basic worker (lines 299--340).\<close>

definition fetch_v1 :: "env \<Rightarrow> request \<Rightarrow> world \<Rightarrow> fetch_outcome \<times> world" where
  "fetch_v1 e r =
     (if excluded_url_v1 r then (\<lambda>w. (NotIntercepted, w)) else respondWith (app_asset_v1 e r))"

section \<open>Vocabulary of the statements\<close>

text \<open>The interface calls a handler run adds to the trace.\<close>

definition new_events :: "world \<Rightarrow> world \<Rightarrow> event list" where
  "new_events w w' = drop (length (trace w)) (trace w')"

text \<open>\<^verbatim>\<open>cache.match(key)\<close> on the cache named \<open>n\<close>: absent when there is no such cache.\<close>

definition store_lookup :: "cache_storage \<Rightarrow> string \<Rightarrow> string \<Rightarrow> response option" where
  "store_lookup s n k = (case map_of s n of None \<Rightarrow> None | Some c \<Rightarrow> cache_match c k)"

text \<open>The response the page receives from the worker, if any.\<close>

fun answered :: "fetch_outcome \<Rightarrow> response option" where
  "answered NotIntercepted = None"
| "answered (RespondWith (Inl err)) = None"
| "answered (RespondWith (Inr x)) = x"

text \<open>
  A manifest URL whose fetch makes \<^verbatim>\<open>addAll\<close> reject: the network fails, or the response
  is not ok.
\<close>

definition seed_fetch_fails :: "env \<Rightarrow> string \<Rightarrow> bool" where
  "seed_fetch_fails e u =
     (case net e ''GET'' (resolve_url e u) of None \<Rightarrow> True | Some resp \<Rightarrow> \<not> response_ok resp)"

section \<open>Example runs\<close>

text \<open>
  Concrete states, requests and networks at which the theorems below are instantiated.
  The worker is served from \<^verbatim>\<open>https://app.example\<close>.
\<close>

definition empty_world :: world where
  "empty_world = \<lparr>caches = [], trace = [], bodies = []\<rparr>"

definition script_response :: response where
  "script_response = \<lparr>status = 200, statusText = ''OK'', rtype = Basic, body = ''app()''\<rparr>"

definition cdn_response :: response where
  "cdn_response = \<lparr>status = 200, statusText = ''OK'', rtype = Cors, body = ''lib()''\<rparr>"

definition fresh_sdk_response :: response where
  "fresh_sdk_response = \<lparr>status = 200, statusText = ''OK'', rtype = Cors, body = ''sdk2()''\<rparr>"

definition saved_response :: response where
  "saved_response = \<lparr>status = 200, statusText = ''OK'', rtype = Basic, body = ''saved''\<rparr>"

definition online_env :: env where
  "online_env =
     \<lparr>origin = ''https://app.example'',
      net = (\<lambda>m u. if m = ''GET'' \<and> u = ''https://app.example/raj-app/app.js''
                   then Some script_response
                   else if m = ''GET'' \<and> u = ''https://cdn.example/lib.js''
                   then Some cdn_response
                   else if m = ''GET'' \<and>
                     u = ''https://www.gstatic.com/firebasejs/9.23.0/firebase-app-compat.js''
                   then Some fresh_sdk_response
                   else if m = ''POST'' \<and> u = ''https://app.example/raj-app/save''
                   then Some saved_response
                   else None)\<rparr>"

text \<open>A development server on a port of its own.\<close>

definition dev_env :: env where
  "dev_env =
     \<lparr>origin = ''http://localhost:8080'',
      net = (\<lambda>m u. if m = ''GET'' \<and> u = ''http://localhost:8080/raj-app/app.js?v=2''
                   then Some script_response
                   else None)\<rparr>"

definition offline_env :: env where
  "offline_env = \<lparr>origin = ''https://app.example'', net = (\<lambda>m u. None)\<rparr>"

definition script_request :: request where
  "script_request =
     \<lparr>request_method = ''GET'', scheme = ''https'', hostname = ''app.example'', port = [],
      pathname = ''/raj-app/app.js'',
      search = [], hash = [], mode = NoCors\<rparr>"

definition cdn_request :: request where
  "cdn_request =
     \<lparr>request_method = ''GET'', scheme = ''https'', hostname = ''cdn.example'', port = [],
      pathname = ''/lib.js'',
      search = [], hash = [], mode = CorsMode\<rparr>"

text \<open>The same script asked of the development server, with a query and a fragment.\<close>

definition dev_request :: request where
  "dev_request =
     \<lparr>request_method = ''GET'', scheme = ''http'', hostname = ''localhost'', port = ''8080'',
      pathname = ''/raj-app/app.js'', search = ''?v=2'', hash = ''#top'', mode = NoCors\<rparr>"

text \<open>A form of the application posted to its own origin.\<close>

definition post_request :: request where
  "post_request =
     \<lparr>request_method = ''POST'', scheme = ''https'', hostname = ''app.example'', port = [],
      pathname = ''/raj-app/save'', search = [], hash = [], mode = SameOrigin\<rparr>"

definition page_request :: request where
  "page_request =
     \<lparr>request_method = ''GET'', scheme = ''https'', hostname = ''app.example'', port = [],
      pathname = ''/raj-app/orders'',
      search = [], hash = [], mode = Navigate\<rparr>"

definition index_request :: request where
  "index_request =
     \<lparr>request_method = ''GET'', scheme = ''https'', hostname = ''app.example'', port = [],
      pathname = ''/raj-app/index.html'',
      search = [], hash = [], mode = Navigate\<rparr>"

definition shell_response :: response where
  "shell_response = \<lparr>status = 200, statusText = ''OK'', rtype = Basic, body = ''<html>''\<rparr>"

definition root_only_world :: world where
  "root_only_world =
     \<lparr>caches = [(''raj-app-v2'', [(''https://app.example/raj-app/'', shell_response)])],
      trace = [], bodies = []\<rparr>"

definition sdk_request :: request where
  "sdk_request =
     \<lparr>request_method = ''GET'', scheme = ''https'', hostname = ''www.gstatic.com'', port = [],
      pathname = ''/firebasejs/9.23.0/firebase-app-compat.js'', search = [], hash = [], mode = NoCors\<rparr>"

definition sdk_response :: response where
  "sdk_response = \<lparr>status = 200, statusText = ''OK'', rtype = Basic, body = ''sdk()''\<rparr>"

definition sdk_world :: world where
  "sdk_world =
     \<lparr>caches = [(''raj-app-v2'',
                  [(''https://www.gstatic.com/firebasejs/9.23.0/firebase-app-compat.js'',
                    sdk_response)])],
      trace = [], bodies = []\<rparr>"

definition api_request :: request where
  "api_request =
     \<lparr>request_method = ''GET'', scheme = ''https'', hostname = ''firestore.googleapis.com'', port = [],
      pathname = ''/v1/projects'', search = [], hash = [], mode = CorsMode\<rparr>"

definition attacker_request :: request where
  "attacker_request =
     \<lparr>request_method = ''GET'', scheme = ''https'', hostname = ''gstatic.com.attacker.example'', port = [],
      pathname = ''/x.js'', search = [], hash = [], mode = NoCors\<rparr>"

text \<open>A network on which every URL answers with a page that carries the URL as its body.\<close>

definition page :: "string \<Rightarrow> response" where
  "page u = \<lparr>status = 200, statusText = ''OK'', rtype = Basic, body = u\<rparr>"

definition seed_env :: env where
  "seed_env = \<lparr>origin = ''https://app.example'', net = (\<lambda>m u. Some (page u))\<rparr>"

text \<open>The same network with one icon of the manifest unreachable.\<close>

definition partial_env :: env where
  "partial_env =
     \<lparr>origin = ''https://app.example'',
      net = (\<lambda>m u. if u = ''https://app.example/raj-app/icons/icons-512x512.jpg'' then None
                 else Some (page u))\<rparr>"

definition two_versions_world :: world where
  "two_versions_world =
     \<lparr>caches = [(''raj-app-v1'', [(''https://app.example/raj-app/'', shell_response)]),
                 (''raj-app-v2'', [(''https://app.example/raj-app/index.html'', shell_response)]),
                 (''fonts'', [])],
      trace = [], bodies = []\<rparr>"

text \<open>The state after the enhanced worker installed on the network \<open>seed_env\<close>.\<close>

definition seeded_world :: world where
  "seeded_world = snd (install_v2 seed_env empty_world)"


section \<open>Facts about the model\<close>

subsection \<open>Substrings\<close>

lemma str_includes_sublist: "str_includes s sub = sublist sub s"
  by (induction s) (auto simp: sublist_Cons_right)

lemma str_includes_iff: "str_includes s sub \<longleftrightarrow> (\<exists>p q. s = p @ sub @ q)"
  by (simp add: str_includes_sublist sublist_def)

lemma str_includes_trans:
  "str_includes s b \<Longrightarrow> str_includes b a \<Longrightarrow> str_includes s a"
proof -
  assume "str_includes s b" "str_includes b a"
  then obtain p q p' q' where "s = p @ b @ q" "b = p' @ a @ q'"
    unfolding str_includes_iff by blast
  then have "s = (p @ p') @ a @ (q' @ q)" by simp
  then show ?thesis
    unfolding str_includes_iff by blast
qed

lemma googleapis_in_listed:
  "str_includes ''firebase.googleapis.com'' ''googleapis.com''"
  "str_includes ''firestore.googleapis.com'' ''googleapis.com''"
  "str_includes ''identitytoolkit.googleapis.com'' ''googleapis.com''"
  "str_includes ''securetoken.googleapis.com'' ''googleapis.com''"
  by simp_all

lemma hostname_in_url: "str_includes (url r) (hostname r)"
proof -
  have "url r =
      (scheme r @ ''://'') @ hostname r @
      ((if port r = [] then [] else '':'' @ port r) @ pathname r @ search r @ hash r)"
    by (simp add: url_def url_key_def)
  then show ?thesis
    unfolding str_includes_iff by blast
qed

lemma excluded_host_v2_iff:
  "excluded_host_v2 r \<longleftrightarrow>
     str_includes (hostname r) ''googleapis.com'' \<or> str_includes (hostname r) ''gstatic.com''"
  unfolding excluded_host_v2_def
  using googleapis_in_listed str_includes_trans by blast

lemma excluded_url_v1_iff: "excluded_url_v1 r \<longleftrightarrow> str_includes (url r) ''googleapis.com''"
  unfolding excluded_url_v1_def
  using googleapis_in_listed str_includes_trans by blast

lemma sdk_asset_excluded: "sdk_asset_v2 r \<Longrightarrow> excluded_host_v2 r"
  by (simp add: sdk_asset_v2_def excluded_host_v2_def)

subsection \<open>Cache storage\<close>

lemma cache_match_None_filter: "cache_match c k = None \<Longrightarrow> filter (\<lambda>e. fst e = k) c = []"
  by (induction c) (auto simp: cache_match_def split: if_splits)

lemma caches_match_None_entries: "caches_match s k = None \<Longrightarrow> entries_for s k = 0"
proof (induction s)
  case Nil
  then show ?case by (simp add: entries_for_def all_entries_def)
next
  case (Cons a s)
  obtain n c where a: "a = (n, c)" by (cases a)
  from Cons.prems a have m: "cache_match c k = None" and r: "caches_match s k = None"
    by (auto split: option.splits)
  from Cons.IH [OF r] cache_match_None_filter [OF m] a show ?case
    by (simp add: entries_for_def all_entries_def)
qed

lemma cache_put_entries: "length (filter (\<lambda>e. fst e = k) (cache_put c k v)) = 1"
  by (induction c) (auto simp: cache_put_def)

lemma cache_put_match: "cache_match (cache_put c k v) k' = (if k' = k then Some v else cache_match c k')"
  by (induction c) (auto simp: cache_put_def cache_match_def)

lemma storage_put_entries:
  assumes "caches_match s k = None" "n \<in> set (caches_keys s)"
  shows "entries_for (storage_put s n k v) k = 1"
  using assms
proof (induction s)
  case Nil
  then show ?case by (simp add: caches_keys_def)
next
  case (Cons a s)
  obtain n' c where a: "a = (n', c)" by (cases a)
  from Cons.prems a have m: "cache_match c k = None" and r: "caches_match s k = None"
    by (auto split: option.splits)
  show ?case
  proof (cases "n' = n")
    case True
    from caches_match_None_entries [OF r] have "filter (\<lambda>e. fst e = k) (concat (map snd s)) = []"
      by (simp add: entries_for_def all_entries_def)
    with True a show ?thesis
      using cache_put_entries [of k c v] by (simp add: entries_for_def all_entries_def)
  next
    case False
    with Cons.prems a have "n \<in> set (caches_keys s)" by (simp add: caches_keys_def)
    from Cons.IH [OF r this] False a cache_match_None_filter [OF m] show ?thesis
      by (simp add: entries_for_def all_entries_def)
  qed
qed

lemma storage_put_match:
  assumes "caches_match s k = None" "n \<in> set (caches_keys s)"
  shows "caches_match (storage_put s n k v) k = Some v"
  using assms
proof (induction s)
  case Nil
  then show ?case by (simp add: caches_keys_def)
next
  case (Cons a s)
  obtain n' c where a: "a = (n', c)" by (cases a)
  from Cons.prems a have m: "cache_match c k = None" and r: "caches_match s k = None"
    by (auto split: option.splits)
  show ?case
  proof (cases "n' = n")
    case True
    with a show ?thesis by (simp add: cache_put_match)
  next
    case False
    with Cons.prems a have "n \<in> set (caches_keys s)" by (simp add: caches_keys_def)
    from Cons.IH [OF r this] False a m show ?thesis by simp
  qed
qed

lemma caches_open_keys: "n \<in> set (caches_keys (caches_open s n))"
  by (simp add: caches_open_def caches_keys_def)

lemma caches_match_append_empty: "caches_match (s @ [(n, [])]) k = caches_match s k"
  by (induction s) (auto simp: cache_match_def split: option.splits)

lemma caches_open_match: "caches_match (caches_open s n) k = caches_match s k"
  by (simp add: caches_open_def caches_match_append_empty)

lemma all_entries_caches_open: "all_entries (caches_open s n) = all_entries s"
  by (simp add: all_entries_def caches_open_def)

lemma open_put_entries:
  "caches_match s k = None \<Longrightarrow> entries_for (storage_put (caches_open s n) n k v) k = 1"
  by (simp add: storage_put_entries caches_open_match caches_open_keys)

lemma open_put_match:
  "caches_match s k = None \<Longrightarrow> caches_match (storage_put (caches_open s n) n k v) k = Some v"
  by (simp add: storage_put_match caches_open_match caches_open_keys)

lemma store_lookup_open_put:
  "store_lookup (storage_put (caches_open s n) n k v) n k = Some v"
proof -
  have "n \<in> set (caches_keys s) \<Longrightarrow> store_lookup (storage_put s n k v) n k = Some v" for s
    by (induction s) (force simp: store_lookup_def caches_keys_def cache_put_match)+
  then show ?thesis by (simp add: caches_open_keys)
qed

lemma storage_put_keys: "caches_keys (storage_put s n k v) = caches_keys s"
  by (induction s) (auto simp: caches_keys_def)

lemma put_all_keys: "caches_keys (put_all s n rs) = caches_keys s"
  by (induction rs arbitrary: s) (auto simp: storage_put_keys)





lemma fetch_all_None_iff:
  "fetch_all f us = None \<longleftrightarrow>
     (\<exists>u\<in>set us. case f u of None \<Rightarrow> True | Some resp \<Rightarrow> \<not> response_ok resp)"
  by (induction us) (fastforce split: option.splits)+


lemma seed_fails_fetch_all:
  "fetch_all (net e ''GET'') (map (resolve_url e) urls) = None \<longleftrightarrow> (\<exists>u\<in>set urls. seed_fetch_fails e u)"
  by (simp add: fetch_all_None_iff seed_fetch_fails_def)

subsection \<open>The handlers, run case by case\<close>

lemmas promise_defs =
  resolve_p_def then_p_def catch_p_def detached_def emit_def respondWith_def
  caches_match_p_def caches_match_request_p_def caches_open_p_def cache_put_p_def
  caches_keys_p_def caches_delete_p_def fetch_p_def skipWaiting_p_def clients_claim_p_def
  alloc_def bodyUsed_def read_body_def clone_def found_def nth_append list_update_append

text \<open>
  A response object has one body: given to the cache and then to the page, it reaches the
  cache only. This is what the clone of lines 109 and 324 is for.
\<close>

lemma body_read_once:
  assumes "put_accepts r" "status c \<noteq> 206"
  shows "fst (respondWith
              (then_p (alloc c)
                 (\<lambda>ob. detached (cache_put_p n r ob) (resolve_p (Some ob)))) w) =
         RespondWith (Inl ''TypeError: Response body is already used'')"
  using assms by (simp add: promise_defs)

lemma logical_or_Object: "logical_or (Object p) q = Object p"
  by (simp add: logical_or_def)

lemma app_asset_v2_hit:
  assumes "caches_match_request (caches w) r = Some c"
  shows "respondWith (app_asset_v2 e r) w =
    (RespondWith (Inr (Some c)),
     w\<lparr>trace := trace w @ [CacheMatch (url r),
                            Console Log [''Service Worker: Serving from cache:'', url r]],
       bodies := bodies w @ [True]\<rparr>)"
  using assms by (simp add: app_asset_v2_def promise_defs)

lemma app_asset_v2_miss_stored:
  assumes "caches_match_request (caches w) r = None" "net e (request_method r) (url_key r) = Some resp"
    "status resp = 200" "rtype resp = Basic" "put_accepts r"
  shows "respondWith (app_asset_v2 e r) w =
    (RespondWith (Inr (Some resp)),
     w\<lparr>caches := storage_put (caches_open (caches w) CACHE_NAME_v2) CACHE_NAME_v2 (url_key r) resp,
       trace := trace w @ [CacheMatch (url r),
                           Console Log [''Service Worker: Fetching from network:'', url r],
                           NetFetch (url r), CacheOpen CACHE_NAME_v2,
                           CachePut CACHE_NAME_v2 (url r)],
       bodies := bodies w @ [True, True]\<rparr>)"
  using assms by (simp add: app_asset_v2_def promise_defs)

lemma app_asset_v2_miss_refused:
  assumes "caches_match_request (caches w) r = None" "net e (request_method r) (url_key r) = Some resp"
    "status resp = 200" "rtype resp = Basic" "\<not> put_accepts r"
  shows "respondWith (app_asset_v2 e r) w =
    (RespondWith (Inr (Some resp)),
     w\<lparr>caches := caches_open (caches w) CACHE_NAME_v2,
       trace := trace w @ [CacheMatch (url r),
                           Console Log [''Service Worker: Fetching from network:'', url r],
                           NetFetch (url r), CacheOpen CACHE_NAME_v2,
                           CachePut CACHE_NAME_v2 (url r)],
       bodies := bodies w @ [True, False]\<rparr>)"
  using assms by (simp add: app_asset_v2_def promise_defs)

lemma app_asset_v2_miss_not_stored:
  assumes "caches_match_request (caches w) r = None" "net e (request_method r) (url_key r) = Some resp"
    "status resp \<noteq> 200 \<or> rtype resp \<noteq> Basic"
  shows "respondWith (app_asset_v2 e r) w =
    (RespondWith (Inr (Some resp)),
     w\<lparr>trace := trace w @ [CacheMatch (url r),
                           Console Log [''Service Worker: Fetching from network:'', url r],
                           NetFetch (url r)],
       bodies := bodies w @ [True]\<rparr>)"
  using assms by (auto simp add: app_asset_v2_def promise_defs)

lemma app_asset_v2_miss_failed:
  assumes "caches_match_request (caches w) r = None" "net e (request_method r) (url_key r) = None"
  shows "respondWith (app_asset_v2 e r) w =
    (if mode r = Navigate
     then (RespondWith (Inr (caches_match (caches w) (resolve_url e (BASE_PATH @ ''/index.html'')))),
           w\<lparr>trace := trace w @ [CacheMatch (url r),
                           Console Log [''Service Worker: Fetching from network:'', url r],
                           NetFetch (url r),
                           Console Err [''Service Worker: Fetch failed for'', url r,
                                        ''TypeError: Failed to fetch''],
                           CacheMatch (resolve_url e (BASE_PATH @ ''/index.html''))],
             bodies := bodies w @
               (case caches_match (caches w) (resolve_url e (BASE_PATH @ ''/index.html'')) of
                  None \<Rightarrow> [] | Some c \<Rightarrow> [True])\<rparr>)
     else (RespondWith (Inr (Some (new_Response ''Offline - resource not available'' 503
                                     ''Service Unavailable''))),
           w\<lparr>trace := trace w @ [CacheMatch (url r),
                           Console Log [''Service Worker: Fetching from network:'', url r],
                           NetFetch (url r),
                           Console Err [''Service Worker: Fetch failed for'', url r,
                                        ''TypeError: Failed to fetch'']],
             bodies := bodies w @ [True]\<rparr>))"
  using assms by (simp add: app_asset_v2_def promise_defs logical_or_def split: option.splits)

lemma app_asset_v1_hit:
  assumes "caches_match_request (caches w) r = Some c"
  shows "respondWith (app_asset_v1 e r) w =
    (RespondWith (Inr (Some c)),
     w\<lparr>trace := trace w @ [CacheMatch (url r)], bodies := bodies w @ [True]\<rparr>)"
  using assms by (simp add: app_asset_v1_def promise_defs)

lemma app_asset_v1_miss_stored:
  assumes "caches_match_request (caches w) r = None" "net e (request_method r) (url_key r) = Some resp"
    "status resp = 200" "rtype resp = Basic" "put_accepts r"
  shows "respondWith (app_asset_v1 e r) w =
    (RespondWith (Inr (Some resp)),
     w\<lparr>caches := storage_put (caches_open (caches w) CACHE_NAME_v1) CACHE_NAME_v1 (url_key r) resp,
       trace := trace w @ [CacheMatch (url r), NetFetch (url r), CacheOpen CACHE_NAME_v1,
                           CachePut CACHE_NAME_v1 (url r)],
       bodies := bodies w @ [True, True]\<rparr>)"
  using assms by (simp add: app_asset_v1_def promise_defs)

lemma app_asset_v1_miss_refused:
  assumes "caches_match_request (caches w) r = None" "net e (request_method r) (url_key r) = Some resp"
    "status resp = 200" "rtype resp = Basic" "\<not> put_accepts r"
  shows "respondWith (app_asset_v1 e r) w =
    (RespondWith (Inr (Some resp)),
     w\<lparr>caches := caches_open (caches w) CACHE_NAME_v1,
       trace := trace w @ [CacheMatch (url r), NetFetch (url r), CacheOpen CACHE_NAME_v1,
                           CachePut CACHE_NAME_v1 (url r)],
       bodies := bodies w @ [True, False]\<rparr>)"
  using assms by (simp add: app_asset_v1_def promise_defs)

lemma app_asset_v1_miss_not_stored:
  assumes "caches_match_request (caches w) r = None" "net e (request_method r) (url_key r) = Some resp"
    "status resp \<noteq> 200 \<or> rtype resp \<noteq> Basic"
  shows "respondWith (app_asset_v1 e r) w =
    (RespondWith (Inr (Some resp)),
     w\<lparr>trace := trace w @ [CacheMatch (url r), NetFetch (url r)], bodies := bodies w @ [True]\<rparr>)"
  using assms by (auto simp add: app_asset_v1_def promise_defs)

lemma app_asset_v1_miss_failed:
  assumes "caches_match_request (caches w) r = None" "net e (request_method r) (url_key r) = None"
  shows "respondWith (app_asset_v1 e r) w =
    (RespondWith (Inr None),
     w\<lparr>trace := trace w @ [CacheMatch (url r), NetFetch (url r),
                           Console Err [''Service Worker: Fetch failed and no cache match for'',
                                        url r, ''TypeError: Failed to fetch'']]\<rparr>)"
  using assms by (simp add: app_asset_v1_def promise_defs)

lemma fetch_v2_app:
  "\<not> excluded_host_v2 r \<Longrightarrow> fetch_v2 e r w = respondWith (app_asset_v2 e r) w"
  by (simp add: fetch_v2_def)

lemma fetch_v1_app:
  "\<not> excluded_url_v1 r \<Longrightarrow> fetch_v1 e r w = respondWith (app_asset_v1 e r) w"
  by (simp add: fetch_v1_def)

lemma excluded_branch_v2_passthrough:
  "\<not> sdk_asset_v2 r \<Longrightarrow> excluded_branch_v2 e r w = (NotIntercepted, w)"
  by (simp add: excluded_branch_v2_def)

lemma excluded_branch_v2_sdk:
  "sdk_asset_v2 r \<Longrightarrow>
   excluded_branch_v2 e r w =
     (case caches_match_request (caches w) r of
        Some c \<Rightarrow>
          (RespondWith (Inr (Some c)),
           w\<lparr>trace := trace w @ [CacheMatch (url r)], bodies := bodies w @ [True]\<rparr>)
      | None \<Rightarrow>
          (case net e (request_method r) (url_key r) of
             None \<Rightarrow>
               (RespondWith (Inl ''TypeError: Failed to fetch''),
                w\<lparr>trace := trace w @ [CacheMatch (url r), NetFetch (url r)]\<rparr>)
           | Some resp \<Rightarrow>
               (RespondWith (Inr (Some resp)),
                w\<lparr>trace := trace w @ [CacheMatch (url r), NetFetch (url r)],
                  bodies := bodies w @ [True]\<rparr>)))"
  by (simp add: excluded_branch_v2_def promise_defs split: option.splits)

lemma install_v2_failed:
  assumes "fetch_all (net e ''GET'') (map (resolve_url e) urlsToCache_v2) = None"
  shows "install_v2 e w =
    (Inr (),
     w\<lparr>caches := caches_open (caches w) CACHE_NAME_v2,
       trace := trace w @
         [Console Log [''Service Worker: Installing v2...''], CacheOpen CACHE_NAME_v2,
          Console Log [''Service Worker: Caching app shell and Firebase SDK'']] @
         map NetFetch (map (resolve_url e) urlsToCache_v2) @
         [Console Err [''Service Worker: Cache failed'', ''TypeError: Request failed'']]\<rparr>)"
  using assms by (simp add: install_v2_def cache_addAll_p_def promise_defs)


lemma install_v1_failed:
  assumes "fetch_all (net e ''GET'') (map (resolve_url e) urlsToCache_v1) = None"
  shows "install_v1 e w =
    (Inr (),
     w\<lparr>caches := caches_open (caches w) CACHE_NAME_v1,
       trace := trace w @
         [Console Log [''Service Worker: Installing...''], CacheOpen CACHE_NAME_v1,
          Console Log [''Service Worker: Caching files'']] @
         map NetFetch (map (resolve_url e) urlsToCache_v1) @
         [Console Log [''Service Worker: Cache failed'', ''TypeError: Request failed'']]\<rparr>)"
  using assms by (simp add: install_v1_def cache_addAll_p_def promise_defs)


text \<open>The deleting loop of the activate listeners, for any test \<open>P\<close> on the cache name.\<close>

lemma delete_loop:
  "\<exists>rs. promise_all
          (map (\<lambda>n. if P n then emit (Console Log [msg, n]) (caches_delete_p n)
                      else resolve_p None) ns) w =
        (Inr rs,
         w\<lparr>caches := filter (\<lambda>c. \<not> (fst c \<in> set ns \<and> P (fst c))) (caches w),
           trace := trace w @
             concat (map (\<lambda>n. if P n then [Console Log [msg, n], CacheDelete n] else []) ns)\<rparr>)"
proof (induction ns arbitrary: w)
  case Nil
  show ?case by (simp add: resolve_p_def)
next
  case (Cons n ns)
  show ?case
  proof (cases "P n")
    case True
    let ?w1 = "w\<lparr>caches := caches_delete (caches w) n,
                  trace := trace w @ [Console Log [msg, n], CacheDelete n]\<rparr>"
    from Cons.IH [of ?w1] obtain rs where
      rs: "promise_all
          (map (\<lambda>n. if P n then emit (Console Log [msg, n]) (caches_delete_p n)
                      else resolve_p None) ns) ?w1 =
        (Inr rs,
         ?w1\<lparr>caches := filter (\<lambda>c. \<not> (fst c \<in> set ns \<and> P (fst c))) (caches ?w1),
           trace := trace ?w1 @
             concat (map (\<lambda>n. if P n then [Console Log [msg, n], CacheDelete n] else []) ns)\<rparr>)"
      by blast
    have f: "filter (\<lambda>c. \<not> (fst c \<in> set ns \<and> P (fst c))) (caches_delete (caches w) n) =
        filter (\<lambda>c. \<not> (fst c \<in> set (n # ns) \<and> P (fst c))) (caches w)"
      using True by (auto simp: caches_delete_def intro: filter_cong)
    from True rs f show ?thesis
      by (simp add: promise_defs)
  next
    case False
    from Cons.IH [of w] obtain rs where
      rs: "promise_all
          (map (\<lambda>n. if P n then emit (Console Log [msg, n]) (caches_delete_p n)
                      else resolve_p None) ns) w =
        (Inr rs,
         w\<lparr>caches := filter (\<lambda>c. \<not> (fst c \<in> set ns \<and> P (fst c))) (caches w),
           trace := trace w @
             concat (map (\<lambda>n. if P n then [Console Log [msg, n], CacheDelete n] else []) ns)\<rparr>)"
      by blast
    have f: "filter (\<lambda>c. \<not> (fst c \<in> set ns \<and> P (fst c))) (caches w) =
        filter (\<lambda>c. \<not> (fst c \<in> set (n # ns) \<and> P (fst c))) (caches w)"
      using False by (auto intro: filter_cong)
    from False rs f show ?thesis
      by (simp add: promise_defs)
  qed
qed

lemma filter_stale:
  "filter (\<lambda>c. \<not> (fst c \<in> set (caches_keys s) \<and> Q (fst c))) s = filter (\<lambda>c. \<not> Q (fst c)) s"
  by (rule filter_cong) (auto simp: caches_keys_def)

lemma delete_other_caches_v2_settles: "\<exists>rs. fst (delete_other_caches_v2 ns w) = Inr rs"
  using delete_loop [of "\<lambda>n. n \<noteq> CACHE_NAME_v2" "''Service Worker: Deleting old cache''" ns w]
  by (auto simp: delete_other_caches_v2_def)

lemma delete_other_caches_v2_caches:
  "caches (snd (delete_other_caches_v2 ns w)) =
     filter (\<lambda>c. \<not> (fst c \<in> set ns \<and> fst c \<noteq> CACHE_NAME_v2)) (caches w)"
  using delete_loop [of "\<lambda>n. n \<noteq> CACHE_NAME_v2" "''Service Worker: Deleting old cache''" ns w]
  by (auto simp: delete_other_caches_v2_def)

lemma delete_old_versions_v2_caches:
  "caches (snd (delete_old_versions_v2 ns w)) =
     filter (\<lambda>c. \<not> (fst c \<in> set ns \<and> startsWith (fst c) ''raj-app-'' \<and> fst c \<noteq> CACHE_NAME_v2))
       (caches w)"
  using delete_loop [of "\<lambda>n. startsWith n ''raj-app-'' \<and> n \<noteq> CACHE_NAME_v2"
      "''Service Worker: Removing old cache:''" ns w]
  by (auto simp: delete_old_versions_v2_def)

lemma activate_first_v2_caches:
  "caches (snd (activate_first_v2 w)) = filter (\<lambda>c. fst c = CACHE_NAME_v2) (caches w)"
proof -
  let ?w1 = "w\<lparr>trace := trace w @ [Console Log [''Service Worker: Activating v2...''], CacheKeys]\<rparr>"
  obtain rs w2 where run: "delete_other_caches_v2 (caches_keys (caches w)) ?w1 = (Inr rs, w2)"
    using delete_other_caches_v2_settles [of "caches_keys (caches w)" ?w1]
    by (cases "delete_other_caches_v2 (caches_keys (caches w)) ?w1") auto
  from run have "snd (delete_other_caches_v2 (caches_keys (caches w)) ?w1) = w2"
    by simp
  then have "caches w2 = filter (\<lambda>c. fst c = CACHE_NAME_v2) (caches w)"
    using delete_other_caches_v2_caches [of "caches_keys (caches w)" ?w1]
      filter_stale [of "caches w" "\<lambda>n. n \<noteq> CACHE_NAME_v2"]
    by simp
  with run show ?thesis
    by (simp add: activate_first_v2_def promise_defs)
qed

lemma activate_second_v2_caches:
  "caches (snd (activate_second_v2 w)) =
     filter (\<lambda>c. \<not> (startsWith (fst c) ''raj-app-'' \<and> fst c \<noteq> CACHE_NAME_v2)) (caches w)"
  using delete_old_versions_v2_caches [of "caches_keys (caches w)" "w\<lparr>trace := trace w @ [CacheKeys]\<rparr>"]
    filter_stale [of "caches w" "\<lambda>n. startsWith n ''raj-app-'' \<and> n \<noteq> CACHE_NAME_v2"]
  by (simp add: activate_second_v2_def promise_defs)

lemma activate_v2_caches:
  "caches (activate_v2 w) = filter (\<lambda>c. fst c = CACHE_NAME_v2) (caches w)"
  by (auto simp: activate_v2_def activate_second_v2_caches activate_first_v2_caches
      intro: filter_cong)

text \<open>
  Whatever enumeration the second callback is given, and whether it runs after the first
  listener or before it, the storage that results is that of \<open>activate_v2\<close>.
\<close>

lemma activate_v2_any_enumeration:
  "caches (snd (delete_old_versions_v2 ns (snd (activate_first_v2 w)))) = caches (activate_v2 w)"
  by (auto simp: activate_v2_caches delete_old_versions_v2_caches activate_first_v2_caches
      intro: filter_cong)

lemma activate_v2_commuted:
  "caches (snd (activate_first_v2 (snd (delete_old_versions_v2 ns w)))) = caches (activate_v2 w)"
  by (auto simp: activate_v2_caches delete_old_versions_v2_caches activate_first_v2_caches
      intro: filter_cong)

text \<open>The basic worker's listener does the same for its own version tag.\<close>

lemma activate_v1_caches:
  "caches (snd (activate_v1 w)) = filter (\<lambda>c. fst c = CACHE_NAME_v1) (caches w)"
proof -
  let ?w1 = "w\<lparr>trace := trace w @ [Console Log [''Service Worker: Activating...''], CacheKeys]\<rparr>"
  from delete_loop [of "\<lambda>n. n \<noteq> CACHE_NAME_v1" "''Service Worker: Deleting old cache''"
      "caches_keys (caches w)" ?w1]
  obtain rs where "promise_all
      (map (\<lambda>n. if n \<noteq> CACHE_NAME_v1
                 then emit (Console Log [''Service Worker: Deleting old cache'', n])
                        (caches_delete_p n)
                 else resolve_p None) (caches_keys (caches w))) ?w1 =
      (Inr rs,
       ?w1\<lparr>caches := filter (\<lambda>c. \<not> (fst c \<in> set (caches_keys (caches w)) \<and> fst c \<noteq> CACHE_NAME_v1))
                         (caches ?w1),
           trace := trace ?w1 @
             concat (map (\<lambda>n. if n \<noteq> CACHE_NAME_v1
                               then [Console Log [''Service Worker: Deleting old cache'', n],
                                     CacheDelete n]
                               else []) (caches_keys (caches w)))\<rparr>)"
    by blast
  then show ?thesis
    using filter_stale [of "caches w" "\<lambda>n. n \<noteq> CACHE_NAME_v1"]
    by (simp add: activate_v1_def promise_defs)
qed

subsection \<open>The example runs\<close>

lemmas example_defs =
  empty_world_def script_response_def cdn_response_def fresh_sdk_response_def
  saved_response_def online_env_def dev_env_def offline_env_def script_request_def
  cdn_request_def dev_request_def post_request_def page_request_def shell_response_def
  root_only_world_def sdk_request_def sdk_response_def sdk_world_def api_request_def
  attacker_request_def page_def seed_env_def partial_env_def url_def url_key_def

lemma partial_env_fails:
  "seed_fetch_fails partial_env (BASE_PATH @ ''/icons/icons-512x512.jpg'')"
  by (simp add: seed_fetch_fails_def partial_env_def resolve_url_def BASE_PATH_def)

lemma seeded_world_caches:
  "caches seeded_world =
     [(''raj-app-v2'',
       map (\<lambda>u. (u, page u))
         [''https://app.example/raj-app/'',
          ''https://app.example/raj-app/index.html'',
          ''https://app.example/raj-app/manifest.json'',
          ''https://app.example/raj-app/icons/icons-192x192.jpg'',
          ''https://app.example/raj-app/icons/icons-512x512.jpg'',
          ''https://www.gstatic.com/firebasejs/9.23.0/firebase-app-compat.js'',
          ''https://www.gstatic.com/firebasejs/9.23.0/firebase-auth-compat.js'',
          ''https://www.gstatic.com/firebasejs/9.23.0/firebase-firestore-compat.js''])]"
  by (simp add: seeded_world_def install_v2_def cache_addAll_p_def promise_defs
      urlsToCache_v2_def BASE_PATH_def CACHE_NAME_v2_def resolve_url_def seed_env_def
      empty_world_def response_ok_def page_def caches_open_def cache_put_def)


section \<open>The claims\<close>

subsection \<open>C1: cache first, and what is stored\<close>

text \<open>
  Claim C1, as the code has it. A request of the application (one the host test lets
  through) is looked up in the cache storage first. On a hit the stored response is the
  answer and no network fetch is made. On a miss with a network answer, the page receives
  that response, body included: the handler gives the cache a clone, so the body of the
  response it returns is unread. The response is stored, as exactly one entry under the
  request's URL in the cache of the current version, if and only if its status is 200, its
  type is \<^verbatim>\<open>basic\<close>, and the request is one \<^verbatim>\<open>cache.put\<close> accepts, a \<^verbatim>\<open>GET\<close> over
  \<^verbatim>\<open>http\<close> or \<^verbatim>\<open>https\<close>; otherwise no entry is added or removed. Both variants
  behave so.
\<close>

theorem cache_first_policy:
  assumes variant:
    "(handler = fetch_v2 \<and> \<not> excluded_host_v2 r \<and> name = CACHE_NAME_v2) \<or>
     (handler = fetch_v1 \<and> \<not> excluded_url_v1 r \<and> name = CACHE_NAME_v1)"
    and run: "handler e r w = (out, w')"
  shows
    "(\<forall>c. caches_match_request (caches w) r = Some c \<longrightarrow>
        out = RespondWith (Inr (Some c)) \<and> caches w' = caches w \<and>
        hd (new_events w w') = CacheMatch (url r) \<and>
        NetFetch (url r) \<notin> set (new_events w w')) \<and>
     (\<forall>resp. caches_match_request (caches w) r = None \<and>
          net e (request_method r) (url_key r) = Some resp \<longrightarrow>
        out = RespondWith (Inr (Some resp)) \<and>
        hd (new_events w w') = CacheMatch (url r) \<and>
        NetFetch (url r) \<in> set (new_events w w') \<and>
        (if status resp = 200 \<and> rtype resp = Basic
         then if put_accepts r
              then entries_for (caches w') (url_key r) = 1 \<and>
                   store_lookup (caches w') name (url_key r) = Some resp \<and>
                   caches_match_request (caches w') r = Some resp
              else caches w' = caches_open (caches w) name \<and>
                   all_entries (caches w') = all_entries (caches w)
         else caches w' = caches w))"
proof (intro conjI allI impI)
  fix c
  assume hit: "caches_match_request (caches w) r = Some c"
  from variant run have
    "(out, w') = (RespondWith (Inr (Some c)),
        w\<lparr>trace := trace w @ [CacheMatch (url r),
            Console Log [''Service Worker: Serving from cache:'', url r]],
          bodies := bodies w @ [True]\<rparr>) \<or>
     (out, w') = (RespondWith (Inr (Some c)),
        w\<lparr>trace := trace w @ [CacheMatch (url r)], bodies := bodies w @ [True]\<rparr>)"
    by (auto simp: fetch_v2_app fetch_v1_app app_asset_v2_hit [OF hit] app_asset_v1_hit [OF hit])
  then show "out = RespondWith (Inr (Some c))" "caches w' = caches w"
    "hd (new_events w w') = CacheMatch (url r)" "NetFetch (url r) \<notin> set (new_events w w')"
    by (auto simp: new_events_def)
next
  fix resp
  assume "caches_match_request (caches w) r = None \<and> net e (request_method r) (url_key r) = Some resp"
  then have miss: "caches_match_request (caches w) r = None"
    and ok: "net e (request_method r) (url_key r) = Some resp"
    by simp_all
  have "out = RespondWith (Inr (Some resp)) \<and>
    hd (new_events w w') = CacheMatch (url r) \<and> NetFetch (url r) \<in> set (new_events w w') \<and>
    (if status resp = 200 \<and> rtype resp = Basic
     then if put_accepts r
          then entries_for (caches w') (url_key r) = 1 \<and>
               store_lookup (caches w') name (url_key r) = Some resp \<and>
               caches_match_request (caches w') r = Some resp
          else caches w' = caches_open (caches w) name \<and>
               all_entries (caches w') = all_entries (caches w)
     else caches w' = caches w)"
  proof (cases "status resp = 200 \<and> rtype resp = Basic")
    case True
    then have st: "status resp = 200" and ty: "rtype resp = Basic" by simp_all
    show ?thesis
    proof (cases "put_accepts r")
      case acc: True
      then have get: "request_method r = ''GET''" by (simp add: put_accepts_def)
      with miss have none: "caches_match (caches w) (url_key r) = None"
        by (simp add: caches_match_request_def)
      from variant run have
        "(out, w') = (RespondWith (Inr (Some resp)),
           w\<lparr>caches := storage_put (caches_open (caches w) name) name (url_key r) resp,
             trace := trace w @ [CacheMatch (url r),
                           Console Log [''Service Worker: Fetching from network:'', url r],
                           NetFetch (url r), CacheOpen name, CachePut name (url r)],
             bodies := bodies w @ [True, True]\<rparr>) \<or>
         (out, w') = (RespondWith (Inr (Some resp)),
           w\<lparr>caches := storage_put (caches_open (caches w) name) name (url_key r) resp,
             trace := trace w @ [CacheMatch (url r), NetFetch (url r), CacheOpen name,
                           CachePut name (url r)],
             bodies := bodies w @ [True, True]\<rparr>)"
        by (auto simp: fetch_v2_app fetch_v1_app
            app_asset_v2_miss_stored [OF miss ok st ty acc]
            app_asset_v1_miss_stored [OF miss ok st ty acc])
      with True acc get none show ?thesis
        by (auto simp: new_events_def open_put_entries open_put_match store_lookup_open_put
            caches_match_request_def)
    next
      case ref: False
      from variant run have
        "(out, w') = (RespondWith (Inr (Some resp)),
           w\<lparr>caches := caches_open (caches w) name,
             trace := trace w @ [CacheMatch (url r),
                           Console Log [''Service Worker: Fetching from network:'', url r],
                           NetFetch (url r), CacheOpen name, CachePut name (url r)],
             bodies := bodies w @ [True, False]\<rparr>) \<or>
         (out, w') = (RespondWith (Inr (Some resp)),
           w\<lparr>caches := caches_open (caches w) name,
             trace := trace w @ [CacheMatch (url r), NetFetch (url r), CacheOpen name,
                           CachePut name (url r)],
             bodies := bodies w @ [True, False]\<rparr>)"
        by (auto simp: fetch_v2_app fetch_v1_app
            app_asset_v2_miss_refused [OF miss ok st ty ref]
            app_asset_v1_miss_refused [OF miss ok st ty ref])
      with True ref show ?thesis
        by (auto simp: new_events_def all_entries_caches_open)
    qed
  next
    case False
    then have no: "status resp \<noteq> 200 \<or> rtype resp \<noteq> Basic" by simp
    from variant run have
      "(out, w') = (RespondWith (Inr (Some resp)),
         w\<lparr>trace := trace w @ [CacheMatch (url r),
                         Console Log [''Service Worker: Fetching from network:'', url r],
                         NetFetch (url r)],
           bodies := bodies w @ [True]\<rparr>) \<or>
       (out, w') = (RespondWith (Inr (Some resp)),
         w\<lparr>trace := trace w @ [CacheMatch (url r), NetFetch (url r)],
           bodies := bodies w @ [True]\<rparr>)"
      by (auto simp: fetch_v2_app fetch_v1_app
          app_asset_v2_miss_not_stored [OF miss ok no] app_asset_v1_miss_not_stored [OF miss ok no])
    with False show ?thesis
      by (auto simp: new_events_def)
  qed
  then show "out = RespondWith (Inr (Some resp))"
    "hd (new_events w w') = CacheMatch (url r)" "NetFetch (url r) \<in> set (new_events w w')"
    "if status resp = 200 \<and> rtype resp = Basic
     then if put_accepts r
          then entries_for (caches w') (url_key r) = 1 \<and>
               store_lookup (caches w') name (url_key r) = Some resp \<and>
               caches_match_request (caches w') r = Some resp
          else caches w' = caches_open (caches w) name \<and>
               all_entries (caches w') = all_entries (caches w)
     else caches w' = caches w"
    by (simp_all add: all_entries_caches_open)
qed

theorem cache_first_policy_witness:
  "fst (fetch_v2 online_env script_request empty_world) = RespondWith (Inr (Some script_response)) \<and>
   entries_for (caches (snd (fetch_v2 online_env script_request empty_world)))
     (url_key script_request) = 1 \<and>
   store_lookup (caches (snd (fetch_v2 online_env script_request empty_world))) CACHE_NAME_v2
     (url_key script_request) = Some script_response \<and>
   store_lookup (caches (snd (fetch_v1 online_env script_request empty_world))) CACHE_NAME_v1
     (url_key script_request) = Some script_response \<and>
   fst (fetch_v2 dev_env dev_request empty_world) = RespondWith (Inr (Some script_response)) \<and>
   store_lookup (caches (snd (fetch_v2 dev_env dev_request empty_world))) CACHE_NAME_v2
     ''http://localhost:8080/raj-app/app.js?v=2'' = Some script_response \<and>
   fst (fetch_v2 online_env index_request seeded_world) =
     RespondWith (Inr (Some (page ''https://app.example/raj-app/index.html''))) \<and>
   caches (snd (fetch_v2 online_env index_request seeded_world)) = caches seeded_world \<and>
   fst (fetch_v2 online_env post_request empty_world) = RespondWith (Inr (Some saved_response)) \<and>
   all_entries (caches (snd (fetch_v2 online_env post_request empty_world))) = []"
  using cache_first_policy [where handler = fetch_v2 and r = script_request
      and name = CACHE_NAME_v2 and e = online_env and w = empty_world
      and out = "fst (fetch_v2 online_env script_request empty_world)"
      and w' = "snd (fetch_v2 online_env script_request empty_world)"]
    cache_first_policy [where handler = fetch_v1 and r = script_request
      and name = CACHE_NAME_v1 and e = online_env and w = empty_world
      and out = "fst (fetch_v1 online_env script_request empty_world)"
      and w' = "snd (fetch_v1 online_env script_request empty_world)"]
    cache_first_policy [where handler = fetch_v2 and r = dev_request
      and name = CACHE_NAME_v2 and e = dev_env and w = empty_world
      and out = "fst (fetch_v2 dev_env dev_request empty_world)"
      and w' = "snd (fetch_v2 dev_env dev_request empty_world)"]
    cache_first_policy [where handler = fetch_v2 and r = index_request
      and name = CACHE_NAME_v2 and e = online_env and w = seeded_world
      and out = "fst (fetch_v2 online_env index_request seeded_world)"
      and w' = "snd (fetch_v2 online_env index_request seeded_world)"]
    cache_first_policy [where handler = fetch_v2 and r = post_request
      and name = CACHE_NAME_v2 and e = online_env and w = empty_world
      and out = "fst (fetch_v2 online_env post_request empty_world)"
      and w' = "snd (fetch_v2 online_env post_request empty_world)"]
  by (simp add: excluded_host_v2_def excluded_url_v1_def example_defs index_request_def
      seeded_world_caches cache_match_def caches_match_request_def put_accepts_def
      all_entries_def)

text \<open>
  Claim C1 as stated asks for a copy of every 200 response that is neither opaque nor a
  redirect, whatever the request. A cross-origin response obtained with CORS is such a
  response, and it is not stored: the guard of line 104 asks for the type \<^verbatim>\<open>basic\<close>. Nor
  is the \<^verbatim>\<open>basic\<close> 200 response to a \<^verbatim>\<open>POST\<close>: \<^verbatim>\<open>cache.put\<close> rejects the request.
\<close>

theorem cors_200_not_stored:
  "\<not> excluded_host_v2 cdn_request \<and>
   caches_match_request (caches empty_world) cdn_request = None \<and>
   net online_env (request_method cdn_request) (url_key cdn_request) = Some cdn_response \<and>
   status cdn_response = 200 \<and> rtype cdn_response \<noteq> Opaque \<and>
   rtype cdn_response \<noteq> OpaqueRedirect \<and>
   fst (fetch_v2 online_env cdn_request empty_world) = RespondWith (Inr (Some cdn_response)) \<and>
   caches (snd (fetch_v2 online_env cdn_request empty_world)) = [] \<and>
   entries_for (caches (snd (fetch_v2 online_env cdn_request empty_world))) (url_key cdn_request) = 0 \<and>
   \<not> excluded_host_v2 post_request \<and>
   net online_env (request_method post_request) (url_key post_request) = Some saved_response \<and>
   status saved_response = 200 \<and> rtype saved_response = Basic \<and>
   fst (fetch_v2 online_env post_request empty_world) = RespondWith (Inr (Some saved_response)) \<and>
   caches (snd (fetch_v2 online_env post_request empty_world)) = [(CACHE_NAME_v2, [])]"
proof -
  have ex: "\<not> excluded_host_v2 cdn_request" "\<not> excluded_host_v2 post_request"
    by (simp_all add: excluded_host_v2_def example_defs)
  have miss: "caches_match_request (caches empty_world) cdn_request = None"
    by (simp add: example_defs caches_match_request_def)
  have ok: "net online_env (request_method cdn_request) (url_key cdn_request) = Some cdn_response"
    by (simp add: example_defs)
  have no: "status cdn_response \<noteq> 200 \<or> rtype cdn_response \<noteq> Basic"
    by (simp add: cdn_response_def)
  have pmiss: "caches_match_request (caches empty_world) post_request = None"
    by (simp add: example_defs caches_match_request_def)
  have pok: "net online_env (request_method post_request) (url_key post_request) = Some saved_response"
    by (simp add: example_defs)
  have pst: "status saved_response = 200" and pty: "rtype saved_response = Basic"
    by (simp_all add: saved_response_def)
  have pref: "\<not> put_accepts post_request"
    by (simp add: put_accepts_def post_request_def)
  show ?thesis
    using ex miss ok pok pst pty
    by (simp add: fetch_v2_app app_asset_v2_miss_not_stored [OF miss ok no]
        app_asset_v2_miss_refused [OF pmiss pok pst pty pref] entries_for_def all_entries_def)
      (simp add: empty_world_def cdn_response_def caches_open_def)
qed

subsection \<open>C2: the answer when the network is down\<close>

text \<open>
  Claim C2, as the code has it. Take a request that is not a navigation, misses the cache
  and fails on the network. If it is a request of the application, the enhanced worker
  answers with a response it builds itself: status 503, status text
  \<^verbatim>\<open>Service Unavailable\<close>, and the body \<^verbatim>\<open>Offline - resource not available\<close>; the basic
  worker's promise fulfils with no response at all. If it goes to an excluded host, no
  response is built: the worker does not intercept it, except that for a Firebase SDK file
  the enhanced worker's promise rejects with the failure of the network. In no case is
  the cache storage touched.
\<close>

theorem offline_fallback_unavailable:
  assumes "mode r \<noteq> Navigate" "caches_match_request (caches w) r = None"
    "net e (request_method r) (url_key r) = None"
  shows
    "(\<not> excluded_host_v2 r \<longrightarrow>
        fst (fetch_v2 e r w) =
          RespondWith (Inr (Some \<lparr>status = 503, statusText = ''Service Unavailable'',
                                   rtype = Default, body = ''Offline - resource not available''\<rparr>)) \<and>
        caches (snd (fetch_v2 e r w)) = caches w) \<and>
     (\<not> excluded_url_v1 r \<longrightarrow>
        fst (fetch_v1 e r w) = RespondWith (Inr None) \<and>
        caches (snd (fetch_v1 e r w)) = caches w) \<and>
     (excluded_host_v2 r \<longrightarrow>
        fst (fetch_v2 e r w) =
          (if sdk_asset_v2 r then RespondWith (Inl ''TypeError: Failed to fetch'')
           else NotIntercepted) \<and>
        caches (snd (fetch_v2 e r w)) = caches w) \<and>
     (excluded_url_v1 r \<longrightarrow> fetch_v1 e r w = (NotIntercepted, w))"
proof (intro conjI impI)
  assume ex: "\<not> excluded_host_v2 r"
  from assms show "fst (fetch_v2 e r w) =
      RespondWith (Inr (Some \<lparr>status = 503, statusText = ''Service Unavailable'',
                               rtype = Default, body = ''Offline - resource not available''\<rparr>))"
    "caches (snd (fetch_v2 e r w)) = caches w"
    by (simp_all add: fetch_v2_app [OF ex] app_asset_v2_miss_failed new_Response_def)
next
  assume ex: "\<not> excluded_url_v1 r"
  from assms show "fst (fetch_v1 e r w) = RespondWith (Inr None)"
    "caches (snd (fetch_v1 e r w)) = caches w"
    by (simp_all add: fetch_v1_app [OF ex] app_asset_v1_miss_failed)
next
  assume ex: "excluded_host_v2 r"
  from assms ex show "fst (fetch_v2 e r w) =
      (if sdk_asset_v2 r then RespondWith (Inl ''TypeError: Failed to fetch'') else NotIntercepted)"
    "caches (snd (fetch_v2 e r w)) = caches w"
    by (cases "sdk_asset_v2 r";
        simp add: fetch_v2_def excluded_branch_v2_sdk excluded_branch_v2_passthrough)+
next
  assume "excluded_url_v1 r"
  then show "fetch_v1 e r w = (NotIntercepted, w)"
    by (simp add: fetch_v1_def)
qed

theorem offline_fallback_unavailable_witness:
  "fst (fetch_v2 offline_env script_request empty_world) =
     RespondWith (Inr (Some \<lparr>status = 503, statusText = ''Service Unavailable'',
                              rtype = Default, body = ''Offline - resource not available''\<rparr>)) \<and>
   fst (fetch_v1 offline_env script_request empty_world) = RespondWith (Inr None) \<and>
   fst (fetch_v2 offline_env post_request empty_world) =
     RespondWith (Inr (Some \<lparr>status = 503, statusText = ''Service Unavailable'',
                              rtype = Default, body = ''Offline - resource not available''\<rparr>)) \<and>
   fst (fetch_v2 offline_env api_request empty_world) = NotIntercepted \<and>
   fst (fetch_v2 offline_env sdk_request empty_world) =
     RespondWith (Inl ''TypeError: Failed to fetch'') \<and>
   fetch_v1 offline_env api_request empty_world = (NotIntercepted, empty_world)"
  using offline_fallback_unavailable [of script_request empty_world offline_env]
    offline_fallback_unavailable [of post_request empty_world offline_env]
    offline_fallback_unavailable [of api_request empty_world offline_env]
    offline_fallback_unavailable [of sdk_request empty_world offline_env]
  by (simp add: excluded_host_v2_def excluded_url_v1_def sdk_asset_v2_def example_defs
      caches_match_request_def)

text \<open>
  Claim C2 as stated asks for an empty body, for every such request. The body of the
  enhanced worker's answer is the text of line 134, the basic worker gives no response,
  and a request to an excluded host is not answered with a response of the worker's.
\<close>

theorem offline_body_not_empty:
  "mode script_request \<noteq> Navigate \<and>
   caches_match_request (caches empty_world) script_request = None \<and>
   net offline_env (request_method script_request) (url_key script_request) = None \<and>
   map_option body (answered (fst (fetch_v2 offline_env script_request empty_world))) =
     Some ''Offline - resource not available'' \<and>
   map_option body (answered (fst (fetch_v2 offline_env script_request empty_world))) \<noteq> Some [] \<and>
   answered (fst (fetch_v1 offline_env script_request empty_world)) = None \<and>
   mode api_request \<noteq> Navigate \<and>
   fetch_v2 offline_env api_request empty_world = (NotIntercepted, empty_world)"
proof -
  have ex2: "\<not> excluded_host_v2 script_request"
    by (simp add: excluded_host_v2_def example_defs)
  have ex1: "\<not> excluded_url_v1 script_request"
    by (simp add: excluded_url_v1_def example_defs)
  have miss: "caches_match_request (caches empty_world) script_request = None"
    by (simp add: example_defs caches_match_request_def)
  have off: "net offline_env (request_method script_request) (url_key script_request) = None"
    by (simp add: example_defs)
  have m: "mode script_request \<noteq> Navigate" "mode api_request \<noteq> Navigate"
    by (simp_all add: script_request_def api_request_def)
  have api: "excluded_host_v2 api_request" "\<not> sdk_asset_v2 api_request"
    by (simp_all add: excluded_host_v2_def sdk_asset_v2_def api_request_def)
  then have pass: "fetch_v2 offline_env api_request empty_world = (NotIntercepted, empty_world)"
    by (simp add: fetch_v2_def excluded_branch_v2_passthrough)
  show ?thesis
    using m miss off pass
    by (simp add: fetch_v2_app [OF ex2] fetch_v1_app [OF ex1]
        app_asset_v2_miss_failed [OF miss off] app_asset_v1_miss_failed [OF miss off]
        new_Response_def)
qed

subsection \<open>C3: a manifest URL that cannot be fetched\<close>

text \<open>
  Claim C3, as the code has it. When the fetch of some manifest URL fails,
  \<^verbatim>\<open>addAll\<close> stores nothing (the cache of the version is opened and left as it was), the
  failure is written to the console, and neither \<^verbatim>\<open>skipWaiting\<close> is called nor
  \<^verbatim>\<open>Installation complete\<close> logged. The \<^verbatim>\<open>catch\<close> of line 33 swallows the failure,
  though: the promise given to \<^verbatim>\<open>waitUntil\<close> fulfils, so the install event succeeds.
\<close>

theorem seed_failure_swallowed:
  assumes variant:
    "(install = install_v2 \<and> urls = urlsToCache_v2 \<and> name = CACHE_NAME_v2) \<or>
     (install = install_v1 \<and> urls = urlsToCache_v1 \<and> name = CACHE_NAME_v1)"
    and fail: "\<exists>u\<in>set urls. seed_fetch_fails e u"
  shows
    "fst (install e w) = Inr () \<and>
     caches (snd (install e w)) = caches_open (caches w) name \<and>
     (\<exists>lvl. last (new_events w (snd (install e w))) =
        Console lvl [''Service Worker: Cache failed'', ''TypeError: Request failed'']) \<and>
     SkipWaiting \<notin> set (new_events w (snd (install e w))) \<and>
     Console Log [''Service Worker: Installation complete''] \<notin>
       set (new_events w (snd (install e w))) \<and>
     (\<forall>n k. CachePut n k \<notin> set (new_events w (snd (install e w))))"
proof -
  from fail have none: "fetch_all (net e ''GET'') (map (resolve_url e) urls) = None"
    by (simp add: seed_fails_fetch_all)
  from variant show ?thesis
  proof
    assume v: "install = install_v2 \<and> urls = urlsToCache_v2 \<and> name = CACHE_NAME_v2"
    with none have "fetch_all (net e ''GET'') (map (resolve_url e) urlsToCache_v2) = None" by simp
    from install_v2_failed [OF this, of w] v show ?thesis
      by (auto simp: new_events_def)
  next
    assume v: "install = install_v1 \<and> urls = urlsToCache_v1 \<and> name = CACHE_NAME_v1"
    with none have "fetch_all (net e ''GET'') (map (resolve_url e) urlsToCache_v1) = None" by simp
    from install_v1_failed [OF this, of w] v show ?thesis
      by (auto simp: new_events_def)
  qed
qed

theorem seed_failure_swallowed_witness:
  "fst (install_v2 partial_env empty_world) = Inr () \<and>
   caches (snd (install_v2 partial_env empty_world)) = [(''raj-app-v2'', [])] \<and>
   SkipWaiting \<notin> set (new_events empty_world (snd (install_v2 partial_env empty_world)))"
proof -
  have "\<exists>u\<in>set urlsToCache_v2. seed_fetch_fails partial_env u"
    using partial_env_fails by (auto simp: urlsToCache_v2_def)
  from seed_failure_swallowed [where install = install_v2 and urls = urlsToCache_v2
      and name = CACHE_NAME_v2 and e = partial_env and w = empty_world, OF _ this]
  show ?thesis
    by (simp add: caches_open_def empty_world_def CACHE_NAME_v2_def)
qed

text \<open>
  Claim C3 as stated has the installation abort. With one icon unreachable the promise of
  either variant's install listener still fulfils.
\<close>

theorem failed_seed_install_completes:
  "seed_fetch_fails partial_env (BASE_PATH @ ''/icons/icons-512x512.jpg'') \<and>
   BASE_PATH @ ''/icons/icons-512x512.jpg'' \<in> set urlsToCache_v2 \<and>
   fst (install_v2 partial_env empty_world) = Inr () \<and>
   fst (install_v1 partial_env empty_world) = Inr ()"
proof -
  have "\<exists>u\<in>set urlsToCache_v2. seed_fetch_fails partial_env u"
    using partial_env_fails by (auto simp: urlsToCache_v2_def)
  then have n2: "fetch_all (net partial_env ''GET'') (map (resolve_url partial_env) urlsToCache_v2) = None"
    by (simp add: seed_fails_fetch_all)
  have "\<exists>u\<in>set urlsToCache_v1. seed_fetch_fails partial_env u"
    using partial_env_fails by (auto simp: urlsToCache_v1_def)
  then have n1: "fetch_all (net partial_env ''GET'') (map (resolve_url partial_env) urlsToCache_v1) = None"
    by (simp add: seed_fails_fetch_all)
  show ?thesis
    using partial_env_fails
    by (simp add: install_v2_failed [OF n2] install_v1_failed [OF n1] urlsToCache_v2_def)
qed

subsection \<open>C4: activation retires the other caches\<close>

text \<open>
  Claim C4. Activation leaves exactly the caches named by the current version tag, with
  their contents: every cache under another name is deleted, the enumeration afterwards
  holds no other name, and where there was no other name the storage is unchanged.
\<close>

theorem activate_keeps_current_only:
  "caches (activate_v2 w) = filter (\<lambda>c. fst c = CACHE_NAME_v2) (caches w) \<and>
   (\<forall>n \<in> set (caches_keys (caches (activate_v2 w))). n = CACHE_NAME_v2) \<and>
   (\<forall>n \<in> set (caches_keys (caches w)).
      n \<noteq> CACHE_NAME_v2 \<longrightarrow> n \<notin> set (caches_keys (caches (activate_v2 w)))) \<and>
   ((\<forall>n \<in> set (caches_keys (caches w)). n = CACHE_NAME_v2) \<longrightarrow>
      caches (activate_v2 w) = caches w)"
proof (intro conjI impI)
  show "caches (activate_v2 w) = filter (\<lambda>c. fst c = CACHE_NAME_v2) (caches w)"
    by (rule activate_v2_caches)
  show "\<forall>n \<in> set (caches_keys (caches (activate_v2 w))). n = CACHE_NAME_v2"
    by (auto simp: activate_v2_caches caches_keys_def)
  show "\<forall>n \<in> set (caches_keys (caches w)).
      n \<noteq> CACHE_NAME_v2 \<longrightarrow> n \<notin> set (caches_keys (caches (activate_v2 w)))"
    by (auto simp: activate_v2_caches caches_keys_def)
next
  assume "\<forall>n \<in> set (caches_keys (caches w)). n = CACHE_NAME_v2"
  then have "filter (\<lambda>c. fst c = CACHE_NAME_v2) (caches w) = caches w"
    by (auto simp: caches_keys_def intro: filter_True)
  then show "caches (activate_v2 w) = caches w"
    by (simp add: activate_v2_caches)
qed

theorem activate_keeps_current_only_witness:
  "caches_keys (caches two_versions_world) = [''raj-app-v1'', ''raj-app-v2'', ''fonts''] \<and>
   caches_keys (caches (activate_v2 two_versions_world)) = [''raj-app-v2''] \<and>
   caches (activate_v2 (activate_v2 two_versions_world)) =
     caches (activate_v2 two_versions_world)"
  using activate_keeps_current_only [of two_versions_world]
    activate_keeps_current_only [of "activate_v2 two_versions_world"]
  by (simp add: two_versions_world_def caches_keys_def CACHE_NAME_v2_def)

subsection \<open>C5: the policy for excluded hosts\<close>

text \<open>
  Claim C5. The enhanced worker does not intercept a request to an excluded host, unless
  the host contains \<^verbatim>\<open>gstatic.com\<close> and the path \<^verbatim>\<open>firebase\<close>: such a request is served
  from the cache on a hit and from the network only on a miss. The basic worker does not
  intercept any request it excludes.
\<close>

theorem excluded_host_policy:
  "(excluded_host_v2 r \<and> \<not> sdk_asset_v2 r \<longrightarrow> fetch_v2 e r w = (NotIntercepted, w)) \<and>
   (sdk_asset_v2 r \<longrightarrow>
      (\<forall>c. caches_match_request (caches w) r = Some c \<longrightarrow>
         fst (fetch_v2 e r w) = RespondWith (Inr (Some c)) \<and>
         NetFetch (url r) \<notin> set (new_events w (snd (fetch_v2 e r w)))) \<and>
      (caches_match_request (caches w) r = None \<longrightarrow>
         fst (fetch_v2 e r w) =
           RespondWith (case net e (request_method r) (url_key r) of
                          None \<Rightarrow> Inl ''TypeError: Failed to fetch''
                        | Some resp \<Rightarrow> Inr (Some resp)) \<and>
         NetFetch (url r) \<in> set (new_events w (snd (fetch_v2 e r w))))) \<and>
   (excluded_url_v1 r \<longrightarrow> fetch_v1 e r w = (NotIntercepted, w))"
proof (intro conjI impI allI)
  assume "excluded_host_v2 r \<and> \<not> sdk_asset_v2 r"
  then show "fetch_v2 e r w = (NotIntercepted, w)"
    by (simp add: fetch_v2_def excluded_branch_v2_passthrough)
next
  fix c
  assume sdk: "sdk_asset_v2 r" and hit: "caches_match_request (caches w) r = Some c"
  from sdk hit show "fst (fetch_v2 e r w) = RespondWith (Inr (Some c))"
    "NetFetch (url r) \<notin> set (new_events w (snd (fetch_v2 e r w)))"
    by (simp_all add: fetch_v2_def sdk_asset_excluded excluded_branch_v2_sdk new_events_def)
next
  assume sdk: "sdk_asset_v2 r" and miss: "caches_match_request (caches w) r = None"
  from sdk miss show "fst (fetch_v2 e r w) =
      RespondWith (case net e (request_method r) (url_key r) of
                     None \<Rightarrow> Inl ''TypeError: Failed to fetch''
                   | Some resp \<Rightarrow> Inr (Some resp))"
    "NetFetch (url r) \<in> set (new_events w (snd (fetch_v2 e r w)))"
    by (simp_all add: fetch_v2_def sdk_asset_excluded excluded_branch_v2_sdk new_events_def
        split: option.splits)
next
  assume "excluded_url_v1 r"
  then show "fetch_v1 e r w = (NotIntercepted, w)"
    by (simp add: fetch_v1_def)
qed

theorem excluded_host_policy_witness:
  "fetch_v2 online_env api_request sdk_world = (NotIntercepted, sdk_world) \<and>
   fetch_v1 online_env api_request sdk_world = (NotIntercepted, sdk_world) \<and>
   fst (fetch_v2 online_env sdk_request sdk_world) = RespondWith (Inr (Some sdk_response)) \<and>
   fst (fetch_v2 online_env sdk_request empty_world) =
     RespondWith (Inr (Some fresh_sdk_response)) \<and>
   fst (fetch_v2 offline_env sdk_request empty_world) =
     RespondWith (Inl ''TypeError: Failed to fetch'')"
  using excluded_host_policy [of api_request online_env sdk_world]
    excluded_host_policy [of sdk_request online_env sdk_world]
    excluded_host_policy [of sdk_request online_env empty_world]
    excluded_host_policy [of sdk_request offline_env empty_world]
  by (simp add: excluded_host_v2_def excluded_url_v1_def sdk_asset_v2_def example_defs
      cache_match_def caches_match_request_def)

subsection \<open>C6: what an excluded request touches\<close>

text \<open>
  Claim C6, as the code has it. No request to an excluded host writes to the cache storage.
  One that is not a Firebase SDK file is not intercepted at all: no cache is read and the
  browser sends the request as it is. A Firebase SDK file from \<^verbatim>\<open>gstatic.com\<close> is looked
  up in the cache storage, and reaches the network, under its own URL, only on a miss.
\<close>

theorem excluded_host_frame:
  assumes "excluded_host_v2 r"
  shows
    "caches (snd (fetch_v2 e r w)) = caches w \<and>
     (\<forall>ev \<in> set (new_events w (snd (fetch_v2 e r w))). ev = CacheMatch (url r) \<or> ev = NetFetch (url r)) \<and>
     (\<not> sdk_asset_v2 r \<longrightarrow> fetch_v2 e r w = (NotIntercepted, w)) \<and>
     (sdk_asset_v2 r \<longrightarrow>
        new_events w (snd (fetch_v2 e r w)) =
          (if caches_match_request (caches w) r = None
           then [CacheMatch (url r), NetFetch (url r)] else [CacheMatch (url r)]))"
proof (cases "sdk_asset_v2 r")
  case True
  with assms show ?thesis
    by (auto simp: fetch_v2_def excluded_branch_v2_sdk new_events_def split: option.splits)
next
  case False
  with assms show ?thesis
    by (simp add: fetch_v2_def excluded_branch_v2_passthrough new_events_def)
qed

theorem excluded_host_frame_witness:
  "caches (snd (fetch_v2 offline_env sdk_request sdk_world)) = caches sdk_world \<and>
   new_events sdk_world (snd (fetch_v2 offline_env sdk_request sdk_world)) =
     [CacheMatch (url sdk_request)] \<and>
   fetch_v2 offline_env api_request sdk_world = (NotIntercepted, sdk_world)"
  using excluded_host_frame [of sdk_request offline_env sdk_world]
    excluded_host_frame [of api_request offline_env sdk_world]
  by (simp add: excluded_host_v2_def sdk_asset_v2_def example_defs cache_match_def
      caches_match_request_def)

text \<open>
  Claim C6 as stated has no excluded request read a cache. A cached SDK file is answered
  from the cache, without a network fetch, although the network holds another response.
\<close>

theorem sdk_request_reads_cache:
  "excluded_host_v2 sdk_request \<and>
   net online_env (request_method sdk_request) (url_key sdk_request) = Some fresh_sdk_response \<and>
   fst (fetch_v2 online_env sdk_request sdk_world) = RespondWith (Inr (Some sdk_response)) \<and>
   new_events sdk_world (snd (fetch_v2 online_env sdk_request sdk_world)) =
     [CacheMatch (url sdk_request)] \<and>
   fst (fetch_v2 online_env sdk_request empty_world) =
     RespondWith (Inr (Some fresh_sdk_response))"
proof -
  have sdk: "sdk_asset_v2 sdk_request"
    by (simp add: sdk_asset_v2_def sdk_request_def)
  have hit: "caches_match_request (caches sdk_world) sdk_request = Some sdk_response"
    by (simp add: example_defs cache_match_def caches_match_request_def)
  have miss: "caches_match_request (caches empty_world) sdk_request = None"
    by (simp add: example_defs caches_match_request_def)
  have on: "net online_env (request_method sdk_request) (url_key sdk_request) = Some fresh_sdk_response"
    by (simp add: example_defs)
  show ?thesis
    using sdk_asset_excluded [OF sdk] hit miss on
    by (simp add: fetch_v2_def excluded_branch_v2_sdk [OF sdk] new_events_def)
qed

subsection \<open>C7: the shell for a navigation that fails\<close>

text \<open>
  Claim C7, as the code has it. A navigation to a page of the application that misses the
  cache and fails on the network is answered with the response stored for the main page,
  \<^verbatim>\<open>/raj-app/index.html\<close>, whenever the cache storage holds one, as it does after
  seeding.
\<close>

theorem navigation_fallback_shell:
  assumes "\<not> excluded_host_v2 r" "mode r = Navigate"
    "caches_match_request (caches w) r = None" "net e (request_method r) (url_key r) = None"
    "caches_match (caches w) (resolve_url e (BASE_PATH @ ''/index.html'')) = Some shell"
  shows "fst (fetch_v2 e r w) = RespondWith (Inr (Some shell)) \<and>
         caches (snd (fetch_v2 e r w)) = caches w"
  using assms
  by (simp add: fetch_v2_app app_asset_v2_miss_failed)

theorem navigation_fallback_shell_witness:
  "fst (fetch_v2 offline_env page_request seeded_world) =
     RespondWith (Inr (Some (page ''https://app.example/raj-app/index.html'')))"
  using navigation_fallback_shell [of page_request seeded_world offline_env
      "page ''https://app.example/raj-app/index.html''"]
  by (simp add: seeded_world_caches excluded_host_v2_def offline_env_def page_request_def
      url_def url_key_def resolve_url_def BASE_PATH_def cache_match_def caches_match_request_def)

text \<open>
  Claim C7 as stated has the answer be the stored response of the shell the specification
  names, the root document \<^verbatim>\<open>/raj-app/\<close>. After a full seed the storage holds the root
  document and the answer is the entry of \<^verbatim>\<open>/raj-app/index.html\<close>, another response; with
  the root document stored and \<^verbatim>\<open>/raj-app/index.html\<close> absent the answer is
  \<^verbatim>\<open>undefined\<close>.
\<close>

theorem navigation_fallback_not_root:
  "mode page_request = Navigate \<and>
   net offline_env (request_method page_request) (url_key page_request) = None \<and>
   caches_match (caches seeded_world) (resolve_url offline_env (BASE_PATH @ ''/'')) =
     Some (page ''https://app.example/raj-app/'') \<and>
   fst (fetch_v2 offline_env page_request seeded_world) =
     RespondWith (Inr (Some (page ''https://app.example/raj-app/index.html''))) \<and>
   page ''https://app.example/raj-app/index.html'' \<noteq> page ''https://app.example/raj-app/'' \<and>
   caches_match (caches root_only_world) (resolve_url offline_env (BASE_PATH @ ''/'')) =
     Some shell_response \<and>
   fst (fetch_v2 offline_env page_request root_only_world) = RespondWith (Inr None)"
proof -
  have ex: "\<not> excluded_host_v2 page_request"
    by (simp add: excluded_host_v2_def page_request_def)
  have nav: "mode page_request = Navigate"
    by (simp add: page_request_def)
  have off: "net offline_env (request_method page_request) (url_key page_request) = None"
    by (simp add: offline_env_def)
  have miss1: "caches_match_request (caches seeded_world) page_request = None"
    by (simp add: seeded_world_caches caches_match_request_def cache_match_def
        page_request_def url_key_def)
  have miss2: "caches_match_request (caches root_only_world) page_request = None"
    by (simp add: root_only_world_def caches_match_request_def cache_match_def
        page_request_def url_key_def)
  have idx1: "caches_match (caches seeded_world) (resolve_url offline_env (BASE_PATH @ ''/index.html'')) =
      Some (page ''https://app.example/raj-app/index.html'')"
    by (simp add: seeded_world_caches cache_match_def resolve_url_def offline_env_def
        BASE_PATH_def)
  have idx2: "caches_match (caches root_only_world)
      (resolve_url offline_env (BASE_PATH @ ''/index.html'')) = None"
    by (simp add: root_only_world_def cache_match_def resolve_url_def offline_env_def
        BASE_PATH_def)
  have root1: "caches_match (caches seeded_world) (resolve_url offline_env (BASE_PATH @ ''/'')) =
      Some (page ''https://app.example/raj-app/'')"
    by (simp add: seeded_world_caches cache_match_def resolve_url_def offline_env_def
        BASE_PATH_def)
  have root2: "caches_match (caches root_only_world) (resolve_url offline_env (BASE_PATH @ ''/'')) =
      Some shell_response"
    by (simp add: root_only_world_def cache_match_def resolve_url_def offline_env_def
        BASE_PATH_def)
  have differ: "page ''https://app.example/raj-app/index.html'' \<noteq> page ''https://app.example/raj-app/''"
    by (simp add: page_def)
  show ?thesis
    using nav off root1 root2 differ
    by (simp add: fetch_v2_app [OF ex] app_asset_v2_miss_failed [OF miss1 off]
        app_asset_v2_miss_failed [OF miss2 off] idx1 idx2)
qed

subsection \<open>C8: the manifest after seeding\<close>



subsection \<open>C9: excluded hosts are found by substring\<close>

text \<open>
  Claim C9, as the code has it. The enhanced worker excludes a request exactly when its
  hostname contains \<^verbatim>\<open>googleapis.com\<close> or \<^verbatim>\<open>gstatic.com\<close> somewhere; an excluded
  request runs the body of the host test, never the cache-first promise, and leaves the
  cache storage as it is. The basic worker excludes a request exactly when its whole URL
  contains \<^verbatim>\<open>googleapis.com\<close>, so a hostname that contains it is excluded there too.
\<close>

theorem excluded_by_substring:
  "(excluded_host_v2 r \<longleftrightarrow>
      (\<exists>p q. hostname r = p @ ''googleapis.com'' @ q) \<or>
      (\<exists>p q. hostname r = p @ ''gstatic.com'' @ q)) \<and>
   (excluded_host_v2 r \<longrightarrow>
      fetch_v2 e r w = excluded_branch_v2 e r w \<and> caches (snd (fetch_v2 e r w)) = caches w) \<and>
   (excluded_url_v1 r \<longleftrightarrow> (\<exists>p q. url r = p @ ''googleapis.com'' @ q)) \<and>
   ((\<exists>p q. hostname r = p @ ''googleapis.com'' @ q) \<longrightarrow> fetch_v1 e r w = (NotIntercepted, w))"
proof (intro conjI impI)
  show "excluded_host_v2 r \<longleftrightarrow>
      (\<exists>p q. hostname r = p @ ''googleapis.com'' @ q) \<or>
      (\<exists>p q. hostname r = p @ ''gstatic.com'' @ q)"
    by (simp only: excluded_host_v2_iff str_includes_iff)
next
  assume ex: "excluded_host_v2 r"
  then show "fetch_v2 e r w = excluded_branch_v2 e r w"
    by (simp add: fetch_v2_def)
  from ex show "caches (snd (fetch_v2 e r w)) = caches w"
    by (cases "sdk_asset_v2 r")
      (auto simp: fetch_v2_def excluded_branch_v2_sdk excluded_branch_v2_passthrough
        split: option.splits)
next
  show "excluded_url_v1 r \<longleftrightarrow> (\<exists>p q. url r = p @ ''googleapis.com'' @ q)"
    by (simp only: excluded_url_v1_iff str_includes_iff)
next
  assume "\<exists>p q. hostname r = p @ ''googleapis.com'' @ q"
  then have "str_includes (hostname r) ''googleapis.com''"
    by (simp only: str_includes_iff)
  with hostname_in_url have "str_includes (url r) ''googleapis.com''"
    by (rule str_includes_trans)
  then show "fetch_v1 e r w = (NotIntercepted, w)"
    by (simp add: fetch_v1_def excluded_url_v1_iff)
qed

theorem excluded_by_substring_witness:
  "excluded_host_v2 attacker_request \<and>
   fetch_v2 online_env attacker_request empty_world = (NotIntercepted, empty_world) \<and>
   fetch_v1 online_env api_request empty_world = (NotIntercepted, empty_world)"
proof -
  have a: "hostname attacker_request = [] @ ''gstatic.com'' @ ''.attacker.example''"
    by (simp add: attacker_request_def)
  have b: "hostname api_request = ''firestore.'' @ ''googleapis.com'' @ []"
    by (simp add: api_request_def)
  have c: "\<not> sdk_asset_v2 attacker_request"
    by (simp add: sdk_asset_v2_def attacker_request_def)
  from a have a': "(\<exists>p q. hostname attacker_request = p @ ''googleapis.com'' @ q) \<or>
      (\<exists>p q. hostname attacker_request = p @ ''gstatic.com'' @ q)" by blast
  from b have b': "\<exists>p q. hostname api_request = p @ ''googleapis.com'' @ q" by blast
  show ?thesis
    using excluded_by_substring [of attacker_request online_env empty_world]
      excluded_by_substring [of api_request online_env empty_world] a' b' c
    by (simp add: excluded_branch_v2_passthrough)
qed

text \<open>
  Claim C9 as stated covers \<^verbatim>\<open>gstatic.com\<close> in both variants. The basic worker has no
  such entry: it runs its cache-first promise on a host that contains \<^verbatim>\<open>gstatic.com\<close>.
\<close>

theorem basic_worker_intercepts_gstatic:
  "str_includes (hostname attacker_request) ''gstatic.com'' \<and>
   \<not> excluded_url_v1 attacker_request \<and>
   fst (fetch_v1 online_env attacker_request empty_world) = RespondWith (Inr None) \<and>
   new_events empty_world (snd (fetch_v1 online_env attacker_request empty_world)) =
     [CacheMatch (url attacker_request), NetFetch (url attacker_request),
      Console Err [''Service Worker: Fetch failed and no cache match for'',
                   url attacker_request, ''TypeError: Failed to fetch'']]"
proof -
  have ex: "\<not> excluded_url_v1 attacker_request"
    by (simp add: excluded_url_v1_def example_defs)
  have miss: "caches_match_request (caches empty_world) attacker_request = None"
    by (simp add: example_defs caches_match_request_def)
  have off: "net online_env (request_method attacker_request) (url_key attacker_request) = None"
    by (simp add: example_defs)
  have inc: "str_includes (hostname attacker_request) ''gstatic.com''"
    by (simp add: attacker_request_def)
  show ?thesis
    using ex inc
    by (simp add: fetch_v1_app app_asset_v1_miss_failed [OF miss off]
        new_events_def)
qed

subsection \<open>C10: the second lookup of the navigation fallback\<close>

text \<open>
  Claim C10. In the fallback of lines 129--130 the left operand of \<^verbatim>\<open>||\<close> is a promise
  object, so the handler resolves with the lookup of \<^verbatim>\<open>/raj-app/index.html\<close> alone. The
  only lookups of the run are those of the request and of that page; when the page is
  absent the answer is \<^verbatim>\<open>undefined\<close>, whether or not \<^verbatim>\<open>/raj-app/\<close> is stored.
\<close>

theorem navigation_fallback_ignores_root:
  assumes "\<not> excluded_host_v2 r" "mode r = Navigate"
    "caches_match_request (caches w) r = None" "net e (request_method r) (url_key r) = None"
  shows
    "fst (fetch_v2 e r w) =
       RespondWith (Inr (caches_match (caches w) (resolve_url e (BASE_PATH @ ''/index.html'')))) \<and>
     new_events w (snd (fetch_v2 e r w)) =
       [CacheMatch (url r),
        Console Log [''Service Worker: Fetching from network:'', url r],
        NetFetch (url r),
        Console Err [''Service Worker: Fetch failed for'', url r, ''TypeError: Failed to fetch''],
        CacheMatch (resolve_url e (BASE_PATH @ ''/index.html''))] \<and>
     (caches_match (caches w) (resolve_url e (BASE_PATH @ ''/index.html'')) = None \<longrightarrow>
        fst (fetch_v2 e r w) = RespondWith (Inr None))"
  using assms
  by (simp add: fetch_v2_app app_asset_v2_miss_failed new_events_def)

theorem navigation_fallback_ignores_root_witness:
  "caches_match (caches root_only_world) (resolve_url offline_env (BASE_PATH @ ''/'')) =
     Some shell_response \<and>
   fst (fetch_v2 offline_env page_request root_only_world) = RespondWith (Inr None) \<and>
   CacheMatch (resolve_url offline_env (BASE_PATH @ ''/'')) \<notin>
     set (new_events root_only_world (snd (fetch_v2 offline_env page_request root_only_world)))"
  using navigation_fallback_ignores_root [of page_request root_only_world offline_env]
  by (simp add: excluded_host_v2_def example_defs resolve_url_def BASE_PATH_def cache_match_def caches_match_request_def)

end
